theory Spec2Isabelle
  imports Main
begin

section \<open>Data model\<close>

text \<open>
  Arguments handed to the command executor. The drivers pass strings, integers (shelf and
  blade numbers, sizes) and, in \<^verbatim>\<open>_run_iscsiadm\<close>, whole tuples of strings.
\<close>

datatype arg = Str string | Num int | Tup "string list"

type_synonym command = "arg list"

text \<open>What one run of an external command yields.\<close>

record proc_out =
  exit_code :: int
  stdout :: string
  stderr :: string

text \<open>
  The exceptions of \<^verbatim>\<open>nova.exception\<close> and of Python that the drivers raise or let through.
  \<open>ProcessExecutionError\<close> carries stdout, stderr, the command and the description.
\<close>

datatype exc =
    is_ProcessExecutionError: ProcessExecutionError string string command "string option"
  | NotFound
  | PoolExhausted
  | Error string
  | ValueError
  | KeyError

datatype level = DEBUG | INFO | WARN | ERROR | EXCEPTION

text \<open>A volume record as the drivers read it (\<^verbatim>\<open>volume['id']\<close>, \<^verbatim>\<open>volume['name']\<close>, ...).\<close>

record volume =
  vol_id :: int
  vol_name :: string
  vol_size :: int
  vol_host :: string
  provider_location :: "string option"
  provider_auth :: "string option"

text \<open>
  The flags of \<^verbatim>\<open>nova/volume/driver.py\<close>. \<^verbatim>\<open>num_shell_tries\<close> is declared as a string
  flag whose default is the integer 3; it is an integer here, as \<^verbatim>\<open>_try_execute\<close>
  compares it with its counter.
\<close>

record flags =
  volume_group :: string
  aoe_eth_dev :: string
  num_shell_tries :: int
  num_shelves :: int
  blades_per_shelf :: int
  iscsi_num_targets :: int
  iscsi_target_prefix :: string
  iscsi_ip_prefix :: string
  rbd_pool :: string

text \<open>
  The defaults declared at the top of the file. \<^verbatim>\<open>iscsi_ip_prefix\<close> defaults to the
  host's own address (\<^verbatim>\<open>$my_ip\<close>), which is a parameter here.
\<close>

definition default_flags :: "string \<Rightarrow> flags" where
  "default_flags my_ip =
     \<lparr> volume_group = ''nova-volumes'', aoe_eth_dev = ''eth0'', num_shell_tries = 3,
       num_shelves = 100, blades_per_shelf = 16, iscsi_num_targets = 100,
       iscsi_target_prefix = ''iqn.2010-10.org.openstack:'', iscsi_ip_prefix = my_ip,
       rbd_pool = ''rbd'' \<rparr>"

subsection \<open>The allocation registry\<close>

text \<open>
  Modelled from the spec: the persistence layer (\<^verbatim>\<open>nova.db\<close>) is not part of the sources.
  The registry keeps one row per iSCSI target number of a host and one row per
  shelf/blade pair; a row is free or names the volume that holds it.
\<close>

record iscsi_target =
  it_host :: string
  target_num :: int
  it_volume :: "int option"

record export_device =
  shelf_id :: int
  blade_id :: int
  ed_volume :: "int option"

record registry =
  iscsi_targets :: "iscsi_target list"
  export_devices :: "export_device list"

subsection \<open>The world a driver acts on\<close>

text \<open>
  Everything a driver call can change: the registry, the commands started so far (each
  with the \<^verbatim>\<open>check_exit_code\<close> option it was started with), the durations passed to
  \<^verbatim>\<open>time.sleep\<close>, and the log (level and message template of each record).
\<close>

record world =
  db :: registry
  history :: "(command \<times> bool) list"
  sleeps :: "int list"
  logs :: "(level \<times> string) list"

text \<open>
  The external tools: what a command yields, given the commands started before it.
  This is the \<^verbatim>\<open>execute\<close> argument of the driver's constructor, seen from below.
\<close>

type_synonym tool = "command list \<Rightarrow> command \<Rightarrow> proc_out"

definition sleep :: "int \<Rightarrow> world \<Rightarrow> world" where
  "sleep t w = w\<lparr>sleeps := sleeps w @ [t]\<rparr>"

definition log_msg :: "level \<Rightarrow> string \<Rightarrow> world \<Rightarrow> world" where
  "log_msg l msg w = w\<lparr>logs := logs w @ [(l, msg)]\<rparr>"

section \<open>Python's string operations\<close>

text \<open>The string methods the drivers call, on byte strings.\<close>

definition digit_char :: "nat \<Rightarrow> char" where
  "digit_char d = ''0123456789'' ! d"

fun str_nat :: "nat \<Rightarrow> string" where
  "str_nat n = (if n < 10 then [digit_char n] else str_nat (n div 10) @ [digit_char (n mod 10)])"

declare str_nat.simps [simp del]

text \<open>\<^verbatim>\<open>str(i)\<close>, \<^verbatim>\<open>'%s' % i\<close> and \<^verbatim>\<open>'%d' % i\<close> of an integer.\<close>

definition str_int :: "int \<Rightarrow> string" where
  "str_int i = (if i < 0 then CHR ''-'' # str_nat (nat (- i)) else str_nat (nat i))"

text \<open>\<^verbatim>\<open>s.split(c)\<close> with a one-character separator: empty fields are kept.\<close>

fun split_on :: "char \<Rightarrow> string \<Rightarrow> string list" where
  "split_on c [] = [[]]"
| "split_on c (x # xs) =
     (if x = c then [] # split_on c xs
      else (case split_on c xs of [] \<Rightarrow> [[x]] | y # ys \<Rightarrow> (x # y) # ys))"

text \<open>\<^verbatim>\<open>s.split()\<close>: runs of whitespace separate the tokens, and no token is empty.\<close>

definition is_space :: "char \<Rightarrow> bool" where
  "is_space c = (c \<in> set [CHR '' '', CHR 0x09, CHR 0x0A, CHR 0x0B, CHR 0x0C, CHR 0x0D])"

fun split_ws_from :: "string \<Rightarrow> string \<Rightarrow> string list" where
  "split_ws_from cur [] = (if cur = [] then [] else [cur])"
| "split_ws_from cur (c # cs) =
     (if is_space c then (if cur = [] then [] else [cur]) @ split_ws_from [] cs
      else split_ws_from (cur @ [c]) cs)"

definition split_ws :: "string \<Rightarrow> string list" where
  "split_ws s = split_ws_from [] s"

text \<open>\<^verbatim>\<open>s.partition(c)\<close>: the part before the first separator, the separator, the rest.\<close>

definition partition_on :: "char \<Rightarrow> string \<Rightarrow> string \<times> string \<times> string" where
  "partition_on c s =
     (case dropWhile (\<lambda>x. x \<noteq> c) s of
        [] \<Rightarrow> (s, [], [])
      | _ # rest \<Rightarrow> (takeWhile (\<lambda>x. x \<noteq> c) s, [c], rest))"

text \<open>\<^verbatim>\<open>s.splitlines()\<close>: lines end at LF, CR or CR LF; no empty last line.\<close>

fun splitlines_from :: "string \<Rightarrow> string \<Rightarrow> string list" where
  "splitlines_from cur [] = (if cur = [] then [] else [cur])"
| "splitlines_from cur [c] =
     (if c = CHR 0x0D \<or> c = CHR 0x0A then [cur] else [cur @ [c]])"
| "splitlines_from cur (c # d # cs) =
     (if c = CHR 0x0D \<and> d = CHR 0x0A then cur # splitlines_from [] cs
      else if c = CHR 0x0D \<or> c = CHR 0x0A then cur # splitlines_from [] (d # cs)
      else splitlines_from (cur @ [c]) (d # cs))"

definition splitlines :: "string \<Rightarrow> string list" where
  "splitlines s = splitlines_from [] s"

text \<open>\<^verbatim>\<open>sub in s\<close> and \<^verbatim>\<open>s.find(sub) >= 0\<close>.\<close>

definition starts_with :: "string \<Rightarrow> string \<Rightarrow> bool" where
  "starts_with s p = (take (length p) s = p)"

fun contains :: "string \<Rightarrow> string \<Rightarrow> bool" where
  "contains [] sub = (sub = [])"
| "contains (c # cs) sub = (starts_with (c # cs) sub \<or> contains cs sub)"

text \<open>\<^verbatim>\<open>s.replace('-', '--')\<close>.\<close>

definition escape_dashes :: "string \<Rightarrow> string" where
  "escape_dashes s = concat (map (\<lambda>c. if c = CHR ''-'' then ''--'' else [c]) s)"

section \<open>Registry operations\<close>

text \<open>
  Modelled from the spec: the \<^verbatim>\<open>self.db\<close> calls of the drivers, which the sources do not
  hold. Population is create-if-absent, allocation takes the first free row and fails
  with \<open>PoolExhausted\<close> when there is none, lookup fails with \<open>NotFound\<close> when the
  volume holds no row.
\<close>

definition iscsi_target_count_by_host :: "registry \<Rightarrow> string \<Rightarrow> int" where
  "iscsi_target_count_by_host r host =
     int (length (filter (\<lambda>t. it_host t = host) (iscsi_targets r)))"

definition iscsi_target_create_safe :: "registry \<Rightarrow> string \<Rightarrow> int \<Rightarrow> registry" where
  "iscsi_target_create_safe r host n =
     (if list_ex (\<lambda>t. it_host t = host \<and> target_num t = n) (iscsi_targets r) then r
      else r\<lparr>iscsi_targets := iscsi_targets r @
                [\<lparr>it_host = host, target_num = n, it_volume = None\<rparr>]\<rparr>)"

fun take_free_target ::
  "string \<Rightarrow> int \<Rightarrow> iscsi_target list \<Rightarrow> (int \<times> iscsi_target list) option" where
  "take_free_target host vid [] = None"
| "take_free_target host vid (t # ts) =
     (if it_host t = host \<and> it_volume t = None
      then Some (target_num t, t\<lparr>it_volume := Some vid\<rparr> # ts)
      else map_option (\<lambda>(n, ts'). (n, t # ts')) (take_free_target host vid ts))"

definition volume_allocate_iscsi_target ::
  "registry \<Rightarrow> int \<Rightarrow> string \<Rightarrow> (exc + int) \<times> registry" where
  "volume_allocate_iscsi_target r vid host =
     (case take_free_target host vid (iscsi_targets r) of
        None \<Rightarrow> (Inl PoolExhausted, r)
      | Some (n, ts) \<Rightarrow> (Inr n, r\<lparr>iscsi_targets := ts\<rparr>))"

definition volume_get_iscsi_target_num :: "registry \<Rightarrow> int \<Rightarrow> exc + int" where
  "volume_get_iscsi_target_num r vid =
     (case find (\<lambda>t. it_volume t = Some vid) (iscsi_targets r) of
        None \<Rightarrow> Inl NotFound
      | Some t \<Rightarrow> Inr (target_num t))"

definition export_device_count :: "registry \<Rightarrow> int" where
  "export_device_count r = int (length (export_devices r))"

definition export_device_create_safe :: "registry \<Rightarrow> int \<Rightarrow> int \<Rightarrow> registry" where
  "export_device_create_safe r s b =
     (if list_ex (\<lambda>d. shelf_id d = s \<and> blade_id d = b) (export_devices r) then r
      else r\<lparr>export_devices := export_devices r @
                [\<lparr>shelf_id = s, blade_id = b, ed_volume = None\<rparr>]\<rparr>)"

fun take_free_device ::
  "int \<Rightarrow> export_device list \<Rightarrow> ((int \<times> int) \<times> export_device list) option" where
  "take_free_device vid [] = None"
| "take_free_device vid (d # ds) =
     (if ed_volume d = None
      then Some ((shelf_id d, blade_id d), d\<lparr>ed_volume := Some vid\<rparr> # ds)
      else map_option (\<lambda>(sb, ds'). (sb, d # ds')) (take_free_device vid ds))"

definition volume_allocate_shelf_and_blade ::
  "registry \<Rightarrow> int \<Rightarrow> (exc + int \<times> int) \<times> registry" where
  "volume_allocate_shelf_and_blade r vid =
     (case take_free_device vid (export_devices r) of
        None \<Rightarrow> (Inl PoolExhausted, r)
      | Some (sb, ds) \<Rightarrow> (Inr sb, r\<lparr>export_devices := ds\<rparr>))"

definition volume_get_shelf_and_blade :: "registry \<Rightarrow> int \<Rightarrow> exc + int \<times> int" where
  "volume_get_shelf_and_blade r vid =
     (case find (\<lambda>d. ed_volume d = Some vid) (export_devices r) of
        None \<Rightarrow> Inl NotFound
      | Some d \<Rightarrow> Inr (shelf_id d, blade_id d))"

section \<open>Command executor\<close>

text \<open>
  Modelled from the spec: \<^verbatim>\<open>utils.execute\<close> is not part of the sources. It runs the
  command once and fails with \<open>ProcessExecutionError\<close> when the exit code is non-zero,
  unless exit-code checking is disabled.
\<close>

definition execute :: "tool \<Rightarrow> command \<Rightarrow> bool \<Rightarrow> world \<Rightarrow> (exc + string \<times> string) \<times> world" where
  "execute run cmd check_exit_code w =
     (let r = run (map fst (history w)) cmd;
          w' = w\<lparr>history := history w @ [(cmd, check_exit_code)]\<rparr>
      in if check_exit_code \<and> exit_code r \<noteq> 0
         then (Inl (ProcessExecutionError (stdout r) (stderr r) cmd None), w')
         else (Inr (stdout r, stderr r), w'))"

definition retry_msg :: string where
  "retry_msg = ''Recovering from a failed execute.  Try number %s''"

text \<open>
  \<^verbatim>\<open>VolumeDriver._try_execute\<close>: the loop \<^verbatim>\<open>while True\<close> with the counter \<^verbatim>\<open>tries\<close>.
\<close>

function try_execute_loop ::
  "flags \<Rightarrow> tool \<Rightarrow> command \<Rightarrow> int \<Rightarrow> world \<Rightarrow> (exc + bool) \<times> world" where
  "try_execute_loop F run cmd tries w =
     (case execute run cmd True w of
        (Inr _, w') \<Rightarrow> (Inr True, w')
      | (Inl e, w') \<Rightarrow>
          (if is_ProcessExecutionError e then
             (if tries + 1 \<ge> num_shell_tries F then (Inl e, w')
              else try_execute_loop F run cmd (tries + 1)
                     (sleep ((tries + 1) ^ 2)
                        (log_msg EXCEPTION retry_msg w')))
           else (Inl e, w')))"
  by pat_completeness auto
termination
  by (relation "measure (\<lambda>(F, run, cmd, tries, w). nat (num_shell_tries F - tries))") auto

declare try_execute_loop.simps [simp del]

definition try_execute :: "flags \<Rightarrow> tool \<Rightarrow> command \<Rightarrow> world \<Rightarrow> (exc + bool) \<times> world" where
  "try_execute F run cmd w = try_execute_loop F run cmd 0 w"

text \<open>
  Modelled from the spec: the \<^verbatim>\<open>attempts\<close> option of \<^verbatim>\<open>utils.execute\<close>, used by
  \<^verbatim>\<open>_run_iscsiadm\<close>. The command is run again after a failure while retries are left;
  the last error is the one raised. The argument counts the retries after the first run.
\<close>

fun execute_attempts ::
  "tool \<Rightarrow> command \<Rightarrow> nat \<Rightarrow> world \<Rightarrow> (exc + string \<times> string) \<times> world" where
  "execute_attempts run cmd 0 w = execute run cmd True w"
| "execute_attempts run cmd (Suc n) w =
     (case execute run cmd True w of
        (Inr r, w') \<Rightarrow> (Inr r, w')
      | (Inl e, w') \<Rightarrow> execute_attempts run cmd n w')"

section \<open>VolumeDriver: logical volumes\<close>

definition local_path :: "flags \<Rightarrow> volume \<Rightarrow> string" where
  "local_path F v =
     ''/dev/mapper/'' @ escape_dashes (volume_group F) @ ''-'' @ escape_dashes (vol_name v)"

definition create_volume :: "flags \<Rightarrow> tool \<Rightarrow> volume \<Rightarrow> world \<Rightarrow> (exc + unit) \<times> world" where
  "create_volume F run v w =
     (let sizestr = (if vol_size v = 0 then ''100M'' else str_int (vol_size v) @ ''G'') in
      case try_execute F run
             [Str ''sudo'', Str ''lvcreate'', Str ''-L'', Str sizestr, Str ''-n'',
              Str (vol_name v), Str (volume_group F)] w of
        (Inl e, w') \<Rightarrow> (Inl e, w')
      | (Inr _, w') \<Rightarrow> (Inr (), w'))"

definition lvdisplay_cmd :: "flags \<Rightarrow> volume \<Rightarrow> command" where
  "lvdisplay_cmd F v =
     [Str ''sudo'', Str ''lvdisplay'', Str (volume_group F @ ''/'' @ vol_name v)]"

definition dd_cmd :: "flags \<Rightarrow> volume \<Rightarrow> command" where
  "dd_cmd F v =
     [Str ''sudo'', Str ''dd'', Str ''if=/dev/zero'', Str (''of='' @ local_path F v),
      Str (''count='' @ str_int (vol_size v * 1024)), Str ''bs=1M'']"

definition lvremove_cmd :: "flags \<Rightarrow> volume \<Rightarrow> command" where
  "lvremove_cmd F v =
     [Str ''sudo'', Str ''lvremove'', Str ''-f'', Str (volume_group F @ ''/'' @ vol_name v)]"

text \<open>
  \<^verbatim>\<open>VolumeDriver.delete_volume\<close>. It returns \<^verbatim>\<open>True\<close> when the volume is not there and
  nothing (\<open>None\<close>) after a removal.
\<close>

definition delete_volume ::
  "flags \<Rightarrow> tool \<Rightarrow> volume \<Rightarrow> world \<Rightarrow> (exc + bool option) \<times> world" where
  "delete_volume F run v w =
     (case try_execute F run (lvdisplay_cmd F v) w of
        (Inl e, w1) \<Rightarrow> (Inr (Some True), w1)
      | (Inr _, w1) \<Rightarrow>
          (case execute run (dd_cmd F v) True w1 of
             (Inl e, w2) \<Rightarrow> (Inl e, w2)
           | (Inr _, w2) \<Rightarrow>
               (case try_execute F run (lvremove_cmd F v) w2 of
                  (Inl e, w3) \<Rightarrow> (Inl e, w3)
                | (Inr _, w3) \<Rightarrow> (Inr None, w3))))"

section \<open>AOEDriver\<close>

definition AOE_ensure_export :: "flags \<Rightarrow> tool \<Rightarrow> volume \<Rightarrow> world \<Rightarrow> (exc + unit) \<times> world" where
  "AOE_ensure_export F run v w = (Inr (), w)"

text \<open>\<^verbatim>\<open>_ensure_blades\<close>: the two nested \<^verbatim>\<open>xrange\<close> loops, shelves outside.\<close>

definition ensure_blades :: "flags \<Rightarrow> registry \<Rightarrow> registry" where
  "ensure_blades F r =
     (if export_device_count r \<ge> num_shelves F * blades_per_shelf F then r
      else foldl (\<lambda>r1 s. foldl (\<lambda>r2 b. export_device_create_safe r2 s b) r1
                            [0 .. blades_per_shelf F - 1])
             r [0 .. num_shelves F - 1])"

definition vblade_setup_cmd :: "flags \<Rightarrow> volume \<Rightarrow> int \<Rightarrow> int \<Rightarrow> command" where
  "vblade_setup_cmd F v s b =
     [Str ''sudo'', Str ''vblade-persist'', Str ''setup'', Num s, Num b,
      Str (aoe_eth_dev F), Str (''/dev/'' @ volume_group F @ ''/'' @ vol_name v)]"

definition AOE_create_export :: "flags \<Rightarrow> tool \<Rightarrow> volume \<Rightarrow> world \<Rightarrow> (exc + unit) \<times> world" where
  "AOE_create_export F run v w =
     (case volume_allocate_shelf_and_blade (ensure_blades F (db w)) (vol_id v) of
        (Inl e, r) \<Rightarrow> (Inl e, w\<lparr>db := r\<rparr>)
      | (Inr (s, b), r) \<Rightarrow>
          (case try_execute F run (vblade_setup_cmd F v s b) (w\<lparr>db := r\<rparr>) of
             (Inl e, w1) \<Rightarrow> (Inl e, w1)
           | (Inr _, w1) \<Rightarrow>
               (let w2 = sleep 2 w1;
                    w3 = snd (execute run [Str ''sudo'', Str ''vblade-persist'', Str ''auto'',
                                            Str ''all''] False w2);
                    w4 = snd (execute run [Str ''sudo'', Str ''vblade-persist'', Str ''start'',
                                            Str ''all''] False w3)
                in (Inr (), w4))))"

definition AOE_remove_export :: "flags \<Rightarrow> tool \<Rightarrow> volume \<Rightarrow> world \<Rightarrow> (exc + unit) \<times> world" where
  "AOE_remove_export F run v w =
     (case volume_get_shelf_and_blade (db w) (vol_id v) of
        Inl e \<Rightarrow> (Inl e, w)
      | Inr (s, b) \<Rightarrow>
          (case try_execute F run
                  [Str ''sudo'', Str ''vblade-persist'', Str ''stop'', Num s, Num b] w of
             (Inl e, w1) \<Rightarrow> (Inl e, w1)
           | (Inr _, w1) \<Rightarrow>
               (case try_execute F run
                       [Str ''sudo'', Str ''vblade-persist'', Str ''destroy'', Num s, Num b] w1 of
                  (Inl e, w2) \<Rightarrow> (Inl e, w2)
                | (Inr _, w2) \<Rightarrow> (Inr (), w2))))"

text \<open>
  \<^verbatim>\<open>AOEDriver.discover_volume\<close>: the path when \<^verbatim>\<open>aoe-stat\<close> names the device, and a
  plain \<^verbatim>\<open>return\<close> (\<open>None\<close>) otherwise.
\<close>

definition AOE_discover_volume ::
  "flags \<Rightarrow> tool \<Rightarrow> volume \<Rightarrow> world \<Rightarrow> (exc + string option) \<times> world" where
  "AOE_discover_volume F run v w =
     (case volume_get_shelf_and_blade (db w) (vol_id v) of
        Inl e \<Rightarrow> (Inl e, w)
      | Inr (s, b) \<Rightarrow>
          (case execute run [Str ''sudo'', Str ''aoe-discover''] True w of
             (Inl e, w1) \<Rightarrow> (Inl e, w1)
           | (Inr _, w1) \<Rightarrow>
               (case execute run [Str ''sudo'', Str ''aoe-stat''] False w1 of
                  (Inl e, w2) \<Rightarrow> (Inl e, w2)
                | (Inr (out, err), w2) \<Rightarrow>
                    (let device_path = ''e'' @ str_int s @ ''.'' @ str_int b in
                     if contains out device_path
                     then (Inr (Some (''/dev/etherd/'' @ device_path)), w2)
                     else (Inr None, w2)))))"

text \<open>The loop of \<^verbatim>\<open>check_for_export\<close> over the lines of the listing, with its \<^verbatim>\<open>break\<close>.\<close>

fun exported_in :: "int \<Rightarrow> int \<Rightarrow> string list \<Rightarrow> bool" where
  "exported_in s b [] = False"
| "exported_in s b (line # rest) =
     (let param = split_on CHR '' '' line in
      if length param = 6 \<and> param ! 0 = str_int s \<and> param ! 1 = str_int b
           \<and> last param = ''run''
      then True
      else exported_in s b rest)"

definition vblade_ls_cmd :: command where
  "vblade_ls_cmd = [Str ''sudo'', Str ''vblade-persist'', Str ''ls'', Str ''--no-header'']"

definition not_running_desc :: "int \<Rightarrow> int \<Rightarrow> int \<Rightarrow> string" where
  "not_running_desc vid s b =
     ''Cannot confirm exported volume id:'' @ str_int vid @ ''. vblade process for e''
       @ str_int s @ ''.'' @ str_int b @ '' isn't running.''"

definition AOE_check_for_export :: "flags \<Rightarrow> tool \<Rightarrow> int \<Rightarrow> world \<Rightarrow> (exc + unit) \<times> world" where
  "AOE_check_for_export F run vid w =
     (case volume_get_shelf_and_blade (db w) vid of
        Inl e \<Rightarrow> (Inl e, w)
      | Inr (s, b) \<Rightarrow>
          (case execute run vblade_ls_cmd True w of
             (Inl e, w1) \<Rightarrow> (Inl e, w1)
           | (Inr (out, err), w1) \<Rightarrow>
               (if exported_in s b (split_on CHR 0x0A out) then (Inr (), w1)
                else (Inl (ProcessExecutionError out err vblade_ls_cmd
                             (Some (not_running_desc vid s b))), w1))))"

section \<open>ISCSIDriver\<close>

definition iscsi_name :: "flags \<Rightarrow> volume \<Rightarrow> string" where
  "iscsi_name F v = iscsi_target_prefix F @ vol_name v"

definition volume_path :: "flags \<Rightarrow> volume \<Rightarrow> string" where
  "volume_path F v = ''/dev/'' @ volume_group F @ ''/'' @ vol_name v"

definition ietadm_new_target :: "flags \<Rightarrow> volume \<Rightarrow> int \<Rightarrow> command" where
  "ietadm_new_target F v tid =
     [Str ''sudo'', Str ''ietadm'', Str ''--op'', Str ''new'', Str (''--tid='' @ str_int tid),
      Str ''--params'', Str (''Name='' @ iscsi_name F v)]"

definition ietadm_new_lun :: "flags \<Rightarrow> volume \<Rightarrow> int \<Rightarrow> command" where
  "ietadm_new_lun F v tid =
     [Str ''sudo'', Str ''ietadm'', Str ''--op'', Str ''new'', Str (''--tid='' @ str_int tid),
      Str ''--lun=0'', Str ''--params'', Str (''Path='' @ volume_path F v @ '',Type=fileio'')]"

definition skip_ensure_msg :: string where
  "skip_ensure_msg = ''Skipping ensure_export. No iscsi_target provisioned for volume: %d''"

text \<open>\<^verbatim>\<open>ISCSIDriver.ensure_export\<close>; \<^verbatim>\<open>_sync_exec\<close> is the same executor as \<^verbatim>\<open>_execute\<close>.\<close>

definition ISCSI_ensure_export ::
  "flags \<Rightarrow> tool \<Rightarrow> volume \<Rightarrow> world \<Rightarrow> (exc + unit) \<times> world" where
  "ISCSI_ensure_export F run v w =
     (case volume_get_iscsi_target_num (db w) (vol_id v) of
        Inl e \<Rightarrow> (if e = NotFound then (Inr (), log_msg INFO skip_ensure_msg w) else (Inl e, w))
      | Inr tid \<Rightarrow>
          (case execute run (ietadm_new_target F v tid) False w of
             (Inl e, w1) \<Rightarrow> (Inl e, w1)
           | (Inr _, w1) \<Rightarrow>
               (case execute run (ietadm_new_lun F v tid) False w1 of
                  (Inl e, w2) \<Rightarrow> (Inl e, w2)
                | (Inr _, w2) \<Rightarrow> (Inr (), w2))))"

text \<open>\<^verbatim>\<open>_ensure_iscsi_targets\<close>: target numbers start at 1.\<close>

definition ensure_iscsi_targets :: "flags \<Rightarrow> registry \<Rightarrow> string \<Rightarrow> registry" where
  "ensure_iscsi_targets F r host =
     (if iscsi_target_count_by_host r host \<ge> iscsi_num_targets F then r
      else foldl (\<lambda>r1 n. iscsi_target_create_safe r1 host n) r [1 .. iscsi_num_targets F])"

definition ISCSI_create_export ::
  "flags \<Rightarrow> tool \<Rightarrow> volume \<Rightarrow> world \<Rightarrow> (exc + unit) \<times> world" where
  "ISCSI_create_export F run v w =
     (case volume_allocate_iscsi_target (ensure_iscsi_targets F (db w) (vol_host v))
             (vol_id v) (vol_host v) of
        (Inl e, r) \<Rightarrow> (Inl e, w\<lparr>db := r\<rparr>)
      | (Inr tid, r) \<Rightarrow>
          (case execute run (ietadm_new_target F v tid) True (w\<lparr>db := r\<rparr>) of
             (Inl e, w1) \<Rightarrow> (Inl e, w1)
           | (Inr _, w1) \<Rightarrow>
               (case execute run (ietadm_new_lun F v tid) True w1 of
                  (Inl e, w2) \<Rightarrow> (Inl e, w2)
                | (Inr _, w2) \<Rightarrow> (Inr (), w2))))"

definition ietadm_show :: "int \<Rightarrow> command" where
  "ietadm_show tid =
     [Str ''sudo'', Str ''ietadm'', Str ''--op'', Str ''show'', Str (''--tid='' @ str_int tid)]"

definition ietadm_delete_lun :: "int \<Rightarrow> command" where
  "ietadm_delete_lun tid =
     [Str ''sudo'', Str ''ietadm'', Str ''--op'', Str ''delete'',
      Str (''--tid='' @ str_int tid), Str ''--lun=0'']"

definition ietadm_delete_target :: "int \<Rightarrow> command" where
  "ietadm_delete_target tid =
     [Str ''sudo'', Str ''ietadm'', Str ''--op'', Str ''delete'',
      Str (''--tid='' @ str_int tid)]"

definition skip_remove_unprovisioned_msg :: string where
  "skip_remove_unprovisioned_msg =
     ''Skipping remove_export. No iscsi_target provisioned for volume: %d''"

definition skip_remove_unexported_msg :: string where
  "skip_remove_unexported_msg =
     ''Skipping remove_export. No iscsi_target is presently exported for volume: %d''"

definition ISCSI_remove_export ::
  "flags \<Rightarrow> tool \<Rightarrow> volume \<Rightarrow> world \<Rightarrow> (exc + unit) \<times> world" where
  "ISCSI_remove_export F run v w =
     (case volume_get_iscsi_target_num (db w) (vol_id v) of
        Inl e \<Rightarrow>
          (if e = NotFound then (Inr (), log_msg INFO skip_remove_unprovisioned_msg w)
           else (Inl e, w))
      | Inr tid \<Rightarrow>
          (case execute run (ietadm_show tid) True w of
             (Inl e, w1) \<Rightarrow> (Inr (), log_msg INFO skip_remove_unexported_msg w1)
           | (Inr _, w1) \<Rightarrow>
               (case execute run (ietadm_delete_lun tid) True w1 of
                  (Inl e, w2) \<Rightarrow> (Inl e, w2)
                | (Inr _, w2) \<Rightarrow>
                    (case execute run (ietadm_delete_target tid) True w2 of
                       (Inl e, w3) \<Rightarrow> (Inl e, w3)
                     | (Inr _, w3) \<Rightarrow> (Inr (), w3)))))"

text \<open>
  \<^verbatim>\<open>_do_iscsi_discovery\<close>: the first line of the discovery output that holds both the
  address prefix and the volume's name.
\<close>

definition do_iscsi_discovery ::
  "flags \<Rightarrow> tool \<Rightarrow> volume \<Rightarrow> world \<Rightarrow> (exc + string option) \<times> world" where
  "do_iscsi_discovery F run v w =
     (case execute run
             [Str ''sudo'', Str ''iscsiadm'', Str ''-m'', Str ''discovery'', Str ''-t'',
              Str ''sendtargets'', Str ''-p'', Str (vol_host v)] True
             (log_msg WARN ''ISCSI provider_location not stored, using discovery'' w) of
        (Inl e, w1) \<Rightarrow> (Inl e, w1)
      | (Inr (out, err), w1) \<Rightarrow>
          (Inr (find (\<lambda>target. contains target (iscsi_ip_prefix F)
                                \<and> contains target (vol_name v)) (splitlines out)), w1))"

text \<open>
  Python's truth test on an optional string (\<^verbatim>\<open>if location:\<close>, \<^verbatim>\<open>if auth:\<close>): \<^verbatim>\<open>None\<close> and
  the empty string are both false.
\<close>

definition truthy :: "string option \<Rightarrow> string option" where
  "truthy x = (case x of None \<Rightarrow> None | Some s \<Rightarrow> if s = [] then None else Some s)"

text \<open>The \<^verbatim>\<open>properties\<close> dictionary; an absent key is \<open>None\<close>.\<close>

record iscsi_properties =
  target_discovered :: bool
  target_iqn :: string
  target_portal :: string
  auth_method :: "string option"
  auth_username :: "string option"
  auth_password :: "string option"

text \<open>
  The second half of \<^verbatim>\<open>_get_iscsi_properties\<close>, from the location on: the partition
  at the first space, the portal up to the first comma, and the unpacking of the three
  tokens of \<^verbatim>\<open>provider_auth\<close>, which raises \<open>ValueError\<close> on any other number.
\<close>

definition properties_of_location :: "bool \<Rightarrow> string \<Rightarrow> string option \<Rightarrow> exc + iscsi_properties" where
  "properties_of_location discovered location auth =
     (case partition_on CHR '' '' location of
        (iscsi_target, sep, name) \<Rightarrow>
          (let props = \<lparr> target_discovered = discovered, target_iqn = name,
                         target_portal = hd (split_on CHR '','' iscsi_target),
                         auth_method = None, auth_username = None, auth_password = None \<rparr>
           in case truthy auth of
                None \<Rightarrow> Inr props
              | Some a \<Rightarrow>
                  (case split_ws a of
                     [m, u, p] \<Rightarrow> Inr (props\<lparr>auth_method := Some m, auth_username := Some u,
                                             auth_password := Some p\<rparr>)
                   | _ \<Rightarrow> Inl ValueError)))"

definition get_iscsi_properties ::
  "flags \<Rightarrow> tool \<Rightarrow> volume \<Rightarrow> world \<Rightarrow> (exc + iscsi_properties) \<times> world" where
  "get_iscsi_properties F run v w =
     (case truthy (provider_location v) of
        Some location \<Rightarrow> (properties_of_location False location (provider_auth v), w)
      | None \<Rightarrow>
          (case do_iscsi_discovery F run v w of
             (Inl e, w1) \<Rightarrow> (Inl e, w1)
           | (Inr found, w1) \<Rightarrow>
               (case truthy found of
                  None \<Rightarrow>
                    (Inl (Error (''Could not find iSCSI export  for volume '' @ vol_name v)), w1)
                | Some location \<Rightarrow>
                    (properties_of_location True location (provider_auth v),
                     log_msg DEBUG ''ISCSI Discovery: Found %s'' w1))))"

definition iscsiadm_cmd :: "iscsi_properties \<Rightarrow> arg \<Rightarrow> command" where
  "iscsiadm_cmd props iscsi_command =
     [Str ''sudo'', Str ''iscsiadm'', Str ''-m'', Str ''node'', Str ''-T'',
      Str (target_iqn props), Str ''-p'', Str (target_portal props), iscsi_command]"

definition run_iscsiadm ::
  "tool \<Rightarrow> iscsi_properties \<Rightarrow> arg \<Rightarrow> int \<Rightarrow> world \<Rightarrow> (exc + string \<times> string) \<times> world" where
  "run_iscsiadm run props iscsi_command num_tries w =
     (case execute_attempts run (iscsiadm_cmd props iscsi_command) (nat (num_tries - 1)) w of
        (Inl e, w1) \<Rightarrow> (Inl e, w1)
      | (Inr r, w1) \<Rightarrow> (Inr r, log_msg DEBUG ''iscsiadm %s: stdout=%s stderr=%s'' w1))"

definition iscsiadm_update ::
  "tool \<Rightarrow> iscsi_properties \<Rightarrow> string \<Rightarrow> string \<Rightarrow> world \<Rightarrow> (exc + string \<times> string) \<times> world" where
  "iscsiadm_update run props property_key property_value w =
     run_iscsiadm run props
       (Tup [''--op'', ''update'', ''-n'', property_key, ''-v'', property_value]) 1 w"

definition get_iscsi_properties_for_volume ::
  "flags \<Rightarrow> tool \<Rightarrow> volume \<Rightarrow> world \<Rightarrow> (exc + iscsi_properties) \<times> world" where
  "get_iscsi_properties_for_volume F run v w =
     (case get_iscsi_properties F run v w of
        (Inl e, w1) \<Rightarrow> (Inl e, w1)
      | (Inr props, w1) \<Rightarrow>
          (if \<not> target_discovered props
           then (case run_iscsiadm run props (Tup [''--op'', ''new'']) 1 w1 of
                   (Inl e, w2) \<Rightarrow> (Inl e, w2)
                 | (Inr _, w2) \<Rightarrow> (Inr props, w2))
           else (Inr props, w1)))"

text \<open>
  \<^verbatim>\<open>set_iscsi_auth\<close>: \<^verbatim>\<open>iscsi_properties.get('auth_method', None)\<close> is tested for truth; the
  other two keys are read by index, and are there whenever the method is.
\<close>

definition set_iscsi_auth :: "tool \<Rightarrow> iscsi_properties \<Rightarrow> world \<Rightarrow> (exc + unit) \<times> world" where
  "set_iscsi_auth run props w =
     (case truthy (auth_method props) of
        None \<Rightarrow> (Inr (), w)
      | Some m \<Rightarrow>
          (case iscsiadm_update run props ''node.session.auth.authmethod'' m w of
             (Inl e, w1) \<Rightarrow> (Inl e, w1)
           | (Inr _, w1) \<Rightarrow>
               (case auth_username props of
                  None \<Rightarrow> (Inl KeyError, w1)
                | Some u \<Rightarrow>
                    (case iscsiadm_update run props ''node.session.auth.username'' u w1 of
                       (Inl e, w2) \<Rightarrow> (Inl e, w2)
                     | (Inr _, w2) \<Rightarrow>
                         (case auth_password props of
                            None \<Rightarrow> (Inl KeyError, w2)
                          | Some p \<Rightarrow>
                              (case iscsiadm_update run props ''node.session.auth.password'' p w2 of
                                 (Inl e, w3) \<Rightarrow> (Inl e, w3)
                               | (Inr _, w3) \<Rightarrow> (Inr (), w3)))))))"

text \<open>
  \<^verbatim>\<open>ISCSIDriver.discover_volume\<close>. Only a \<open>ProcessExecutionError\<close> of the login or of
  the startup update is turned into \<open>Error\<close>; the two steps before are outside the
  \<^verbatim>\<open>try\<close>.
\<close>

definition login_and_automatic ::
  "flags \<Rightarrow> tool \<Rightarrow> iscsi_properties \<Rightarrow> world \<Rightarrow> (exc + unit) \<times> world" where
  "login_and_automatic F run props w =
     (case run_iscsiadm run props (Str ''--login'') (num_shell_tries F) w of
        (Inl e, w1) \<Rightarrow> (Inl e, w1)
      | (Inr _, w1) \<Rightarrow>
          (case iscsiadm_update run props ''node.startup'' ''automatic'' w1 of
             (Inl e, w2) \<Rightarrow> (Inl e, w2)
           | (Inr _, w2) \<Rightarrow> (Inr (), w2)))"

definition ISCSI_discover_volume ::
  "flags \<Rightarrow> tool \<Rightarrow> volume \<Rightarrow> world \<Rightarrow> (exc + string option) \<times> world" where
  "ISCSI_discover_volume F run v w =
     (case get_iscsi_properties_for_volume F run v w of
        (Inl e, w1) \<Rightarrow> (Inl e, w1)
      | (Inr props, w1) \<Rightarrow>
          (case set_iscsi_auth run props w1 of
             (Inl e, w2) \<Rightarrow> (Inl e, w2)
           | (Inr _, w2) \<Rightarrow>
               (case login_and_automatic F run props w2 of
                  (Inl e, w3) \<Rightarrow>
                    (if is_ProcessExecutionError e
                     then (Inl (Error (''iSCSI device '' @ target_iqn props @ '' not found'')),
                           log_msg ERROR ''%s'' w3)
                     else (Inl e, w3))
                | (Inr _, w3) \<Rightarrow>
                    (Inr (Some (''/dev/disk/by-path/ip-'' @ target_portal props @ ''-iscsi-''
                                  @ target_iqn props @ ''-lun-0'')), w3))))"

definition ISCSI_undiscover_volume ::
  "flags \<Rightarrow> tool \<Rightarrow> volume \<Rightarrow> world \<Rightarrow> (exc + unit) \<times> world" where
  "ISCSI_undiscover_volume F run v w =
     (case get_iscsi_properties_for_volume F run v w of
        (Inl e, w1) \<Rightarrow> (Inl e, w1)
      | (Inr props, w1) \<Rightarrow>
          (case iscsiadm_update run props ''node.startup'' ''manual'' w1 of
             (Inl e, w2) \<Rightarrow> (Inl e, w2)
           | (Inr _, w2) \<Rightarrow>
               (case run_iscsiadm run props (Str ''--logout'') 1 w2 of
                  (Inl e, w3) \<Rightarrow> (Inl e, w3)
                | (Inr _, w3) \<Rightarrow> (Inr (), w3))))"

definition ISCSI_check_for_export ::
  "flags \<Rightarrow> tool \<Rightarrow> int \<Rightarrow> world \<Rightarrow> (exc + unit) \<times> world" where
  "ISCSI_check_for_export F run vid w =
     (case volume_get_iscsi_target_num (db w) vid of
        Inl e \<Rightarrow> (Inl e, w)
      | Inr tid \<Rightarrow>
          (case execute run (ietadm_show tid) True w of
             (Inl e, w1) \<Rightarrow>
               (if is_ProcessExecutionError e
                then (Inl e, log_msg ERROR ''Cannot confirm exported volume id:%(volume_id)s.'' w1)
                else (Inl e, w1))
           | (Inr _, w1) \<Rightarrow> (Inr (), w1)))"

section \<open>RBDDriver and SheepdogDriver\<close>

definition RBD_discover_volume ::
  "flags \<Rightarrow> tool \<Rightarrow> volume \<Rightarrow> world \<Rightarrow> (exc + string option) \<times> world" where
  "RBD_discover_volume F run v w = (Inr (Some (''rbd:'' @ rbd_pool F @ ''/'' @ vol_name v)), w)"

definition Sheepdog_discover_volume ::
  "flags \<Rightarrow> tool \<Rightarrow> volume \<Rightarrow> world \<Rightarrow> (exc + string option) \<times> world" where
  "Sheepdog_discover_volume F run v w = (Inr (Some (''sheepdog:'' @ vol_name v)), w)"

section \<open>The drivers as one interface\<close>

datatype driver = AOEDriver | ISCSIDriver | RBDDriver | SheepdogDriver

fun discover_volume ::
  "driver \<Rightarrow> flags \<Rightarrow> tool \<Rightarrow> volume \<Rightarrow> world \<Rightarrow> (exc + string option) \<times> world" where
  "discover_volume AOEDriver = AOE_discover_volume"
| "discover_volume ISCSIDriver = ISCSI_discover_volume"
| "discover_volume RBDDriver = RBD_discover_volume"
| "discover_volume SheepdogDriver = Sheepdog_discover_volume"

section \<open>What the listing of a running export looks like\<close>

text \<open>\<^verbatim>\<open>c.join(fields)\<close>: the fields with one separator between neighbours.\<close>

fun join_with :: "char \<Rightarrow> string list \<Rightarrow> string" where
  "join_with c [] = []"
| "join_with c [f] = f"
| "join_with c (f # g # fs) = f @ c # join_with c (g # fs)"

text \<open>
  The spec's matching line, made exact: six fields with single spaces between them and
  none inside them, the first the shelf and the second the blade in decimal, the last
  the status \<^verbatim>\<open>run\<close>. It is stated on the text of the line, not through \<open>split_on\<close>.
\<close>

definition running_line :: "int \<Rightarrow> int \<Rightarrow> string \<Rightarrow> bool" where
  "running_line s b line =
     (\<exists>f3 f4 f5. CHR '' '' \<notin> set f3 \<and> CHR '' '' \<notin> set f4 \<and> CHR '' '' \<notin> set f5
        \<and> line = join_with CHR '' '' [str_int s, str_int b, f3, f4, f5, ''run''])"

section \<open>Sample tools, registries and volumes\<close>

text \<open>Concrete inputs on which the theorems below are run.\<close>

definition exits :: "int \<Rightarrow> string \<Rightarrow> proc_out" where
  "exits c out = \<lparr> exit_code = c, stdout = out, stderr = [] \<rparr>"

text \<open>A tool that fails the first \<open>n\<close> commands it is given and succeeds from then on.\<close>

definition fails_first :: "nat \<Rightarrow> tool" where
  "fails_first n h cmd = exits (if length h < n then 1 else 0) []"

text \<open>A tool that succeeds on the first \<open>n\<close> commands it is given and fails from then on.\<close>

definition fails_from :: "nat \<Rightarrow> tool" where
  "fails_from n h cmd = exits (if length h < n then 0 else 1) []"

text \<open>A tool that always succeeds and prints the same text.\<close>

definition prints :: "string \<Rightarrow> tool" where
  "prints out h cmd = exits 0 out"

text \<open>A tool that always exits with status 1 and the given text on stderr.\<close>

definition refuses :: "string \<Rightarrow> tool" where
  "refuses msg h cmd = \<lparr> exit_code = 1, stdout = [], stderr = msg \<rparr>"

definition fresh_world :: "registry \<Rightarrow> world" where
  "fresh_world r = \<lparr> db = r, history = [], sleeps = [], logs = [] \<rparr>"

definition empty_registry :: registry where
  "empty_registry = \<lparr> iscsi_targets = [], export_devices = [] \<rparr>"

text \<open>Small pools, so that populating them stays short.\<close>

definition small_flags :: flags where
  "small_flags =
     (default_flags ''10.0.0.1'')\<lparr>num_shelves := 1, blades_per_shelf := 2,
                                    iscsi_num_targets := 2\<rparr>"

definition vol1 :: volume where
  "vol1 = \<lparr> vol_id = 1, vol_name = ''vol-1'', vol_size = 1, vol_host = ''host1'',
            provider_location = None, provider_auth = None \<rparr>"

text \<open>A registry in which volume 1 holds target 1 and the pair (0, 0).\<close>

definition registry1 :: registry where
  "registry1 =
     \<lparr> iscsi_targets = [\<lparr>it_host = ''host1'', target_num = 1, it_volume = Some 1\<rparr>,
                        \<lparr>it_host = ''host1'', target_num = 2, it_volume = None\<rparr>],
       export_devices = [\<lparr>shelf_id = 0, blade_id = 0, ed_volume = Some 1\<rparr>,
                         \<lparr>shelf_id = 0, blade_id = 1, ed_volume = None\<rparr>] \<rparr>"

text \<open>The registry after \<^verbatim>\<open>create_export\<close> of volume 1 on an empty registry, per driver.\<close>

definition registry_iscsi1 :: registry where
  "registry_iscsi1 =
     \<lparr> iscsi_targets = [\<lparr>it_host = ''host1'', target_num = 1, it_volume = Some 1\<rparr>,
                        \<lparr>it_host = ''host1'', target_num = 2, it_volume = None\<rparr>],
       export_devices = [] \<rparr>"

definition registry_aoe1 :: registry where
  "registry_aoe1 =
     \<lparr> iscsi_targets = [],
       export_devices = [\<lparr>shelf_id = 0, blade_id = 0, ed_volume = Some 1\<rparr>,
                         \<lparr>shelf_id = 0, blade_id = 1, ed_volume = None\<rparr>] \<rparr>"

text \<open>The stored location of the spec's scenario, and a volume that carries it.\<close>

definition spec_location :: string where
  "spec_location = ''10.0.0.5:3260,1 iqn.2010-10.org.openstack:vol-1''"

definition vol_chap :: "string \<Rightarrow> volume" where
  "vol_chap auth =
     vol1\<lparr>provider_location := Some ''10.0.0.5:3260,1 iqn.2010-10.org.openstack:vol-1'',
          provider_auth := Some auth\<rparr>"

text \<open>The properties of that volume when it carries no authentication.\<close>

definition sample_props :: iscsi_properties where
  "sample_props =
     \<lparr> target_discovered = False, target_iqn = ''iqn.2010-10.org.openstack:vol-1'',
       target_portal = ''10.0.0.5:3260'', auth_method = None, auth_username = None,
       auth_password = None \<rparr>"

text \<open>The world once \<^verbatim>\<open>iscsiadm --op new\<close> has run for it on a fresh world.\<close>

definition world_node_created :: world where
  "world_node_created =
     \<lparr> db = empty_registry,
       history = [(iscsiadm_cmd sample_props (Tup [''--op'', ''new'']), True)],
       sleeps = [], logs = [(DEBUG, ''iscsiadm %s: stdout=%s stderr=%s'')] \<rparr>"

definition vol0 :: volume where
  "vol0 = \<lparr> vol_id = 7, vol_name = ''vol-0'', vol_size = 0, vol_host = ''host1'',
            provider_location = None, provider_auth = None \<rparr>"

text \<open>A registry in which volume 1 holds the pair (3, 7), and a listing of two exports.\<close>

definition registry37 :: registry where
  "registry37 =
     \<lparr> iscsi_targets = [],
       export_devices = [\<lparr>shelf_id = 3, blade_id = 7, ed_volume = Some 1\<rparr>] \<rparr>"

definition listing :: "string \<Rightarrow> string" where
  "listing status =
     ''3 6 eth0 /dev/nova-volumes/vol-0 auto run'' @ [CHR 0x0A]
       @ ''3 7 eth0 /dev/nova-volumes/vol-1 auto '' @ status"

section \<open>Properties of the command executor\<close>

lemma execute_checked_fail:
  "exit_code (run (map fst (history w)) cmd) \<noteq> 0 \<Longrightarrow>
   execute run cmd True w =
     (Inl (ProcessExecutionError (stdout (run (map fst (history w)) cmd))
             (stderr (run (map fst (history w)) cmd)) cmd None),
      w\<lparr>history := history w @ [(cmd, True)]\<rparr>)"
  by (simp add: execute_def Let_def)

lemma execute_ok:
  "exit_code (run (map fst (history w)) cmd) = 0 \<Longrightarrow>
   execute run cmd chk w =
     (Inr (stdout (run (map fst (history w)) cmd), stderr (run (map fst (history w)) cmd)),
      w\<lparr>history := history w @ [(cmd, chk)]\<rparr>)"
  by (simp add: execute_def Let_def)

lemma execute_unchecked:
  "execute run cmd False w =
     (Inr (stdout (run (map fst (history w)) cmd), stderr (run (map fst (history w)) cmd)),
      w\<lparr>history := history w @ [(cmd, False)]\<rparr>)"
  by (simp add: execute_def Let_def)

lemma execute_db [simp]: "db (snd (execute run cmd chk w)) = db w"
  by (simp add: execute_def Let_def)

lemma try_execute_loop_db: "db (snd (try_execute_loop F run cmd tries w)) = db w"
proof (induction F run cmd tries w rule: try_execute_loop.induct)
  case (1 F run cmd tries w)
  show ?case
  proof (cases "exit_code (run (map fst (history w)) cmd) = 0")
    case True
    then show ?thesis
      by (subst try_execute_loop.simps) (simp add: execute_ok)
  next
    case False
    show ?thesis
    proof (cases "num_shell_tries F \<le> tries + 1")
      case True
      with False show ?thesis
        by (subst try_execute_loop.simps) (simp add: execute_checked_fail)
    next
      case lt: False
      have ex: "execute run cmd True w =
         (Inl (ProcessExecutionError (stdout (run (map fst (history w)) cmd))
             (stderr (run (map fst (history w)) cmd)) cmd None),
          w\<lparr>history := history w @ [(cmd, True)]\<rparr>)"
        using False by (simp add: execute_checked_fail)
      have "db (snd (try_execute_loop F run cmd (tries + 1)
                 (sleep ((tries + 1)\<^sup>2) (log_msg EXCEPTION retry_msg
                    (w\<lparr>history := history w @ [(cmd, True)]\<rparr>))))) = db w"
        using "1.IH"[OF ex[symmetric] refl _ lt] 
        by (simp add: sleep_def log_msg_def)
      with False lt show ?thesis
        by (subst try_execute_loop.simps) (simp add: execute_checked_fail)
    qed
  qed
qed


lemma try_execute_db [simp]: "db (snd (try_execute F run cmd w)) = db w"
  by (simp add: try_execute_def try_execute_loop_db)

lemma try_execute_first_ok:
  "exit_code (run (map fst (history w)) cmd) = 0 \<Longrightarrow>
   try_execute F run cmd w = (Inr True, w\<lparr>history := history w @ [(cmd, True)]\<rparr>)"
  unfolding try_execute_def
  by (subst try_execute_loop.simps) (simp add: execute_ok)

lemma try_execute_loop_fails:
  "\<forall>h. exit_code (run h cmd) \<noteq> 0 \<Longrightarrow>
   \<exists>so se w'. try_execute_loop F run cmd tries w =
           (Inl (ProcessExecutionError so se cmd None), w')"
proof (induction F run cmd tries w rule: try_execute_loop.induct)
  case (1 F run cmd tries w)
  have ex: "execute run cmd True w =
         (Inl (ProcessExecutionError (stdout (run (map fst (history w)) cmd))
             (stderr (run (map fst (history w)) cmd)) cmd None),
          w\<lparr>history := history w @ [(cmd, True)]\<rparr>)"
    using "1.prems" by (simp add: execute_checked_fail)
  show ?case
  proof (cases "num_shell_tries F \<le> tries + 1")
    case True
    then show ?thesis
      by (subst try_execute_loop.simps) (simp add: ex)
  next
    case lt: False
    from "1.IH"[OF ex[symmetric] refl _ lt "1.prems"] lt show ?thesis
      by (subst try_execute_loop.simps) (simp add: ex)
  qed
qed

lemma try_execute_fails:
  "\<forall>h. exit_code (run h cmd) \<noteq> 0 \<Longrightarrow>
   \<exists>so se w'. try_execute F run cmd w = (Inl (ProcessExecutionError so se cmd None), w')"
  by (simp add: try_execute_def try_execute_loop_fails)

text \<open>
  C4. With the retry limit 3, \<^verbatim>\<open>_try_execute\<close> on a command that fails twice and then
  succeeds returns \<^verbatim>\<open>True\<close> after exactly three runs of the command, having slept 1 and
  then 4 time units (the square of the number of the failed attempt) after the two
  failures. On a command that fails three times it stops after exactly three runs, having
  slept 1 and 4 after the first two, and raises the error of the third run.
\<close>

theorem try_execute_three_attempts:
  assumes lim: "num_shell_tries F = 3"
  shows "(exit_code (run (map fst (history w)) cmd) \<noteq> 0
            \<and> exit_code (run (map fst (history w) @ [cmd]) cmd) \<noteq> 0
            \<and> exit_code (run (map fst (history w) @ [cmd, cmd]) cmd) = 0 \<longrightarrow>
          try_execute F run cmd w =
            (Inr True,
             w\<lparr>history := history w @ [(cmd, True), (cmd, True), (cmd, True)],
               sleeps := sleeps w @ [1, 4],
               logs := logs w @ [(EXCEPTION, retry_msg), (EXCEPTION, retry_msg)]\<rparr>))
       \<and> (exit_code (run (map fst (history w)) cmd) \<noteq> 0
            \<and> exit_code (run (map fst (history w) @ [cmd]) cmd) \<noteq> 0
            \<and> exit_code (run (map fst (history w) @ [cmd, cmd]) cmd) \<noteq> 0 \<longrightarrow>
          try_execute F run cmd w =
            (Inl (ProcessExecutionError (stdout (run (map fst (history w) @ [cmd, cmd]) cmd))
                    (stderr (run (map fst (history w) @ [cmd, cmd]) cmd)) cmd None),
             w\<lparr>history := history w @ [(cmd, True), (cmd, True), (cmd, True)],
               sleeps := sleeps w @ [1, 4],
               logs := logs w @ [(EXCEPTION, retry_msg), (EXCEPTION, retry_msg)]\<rparr>))"
  unfolding try_execute_def
  by (simp add: try_execute_loop.simps[of F run cmd 0] try_execute_loop.simps[of F run cmd 1]
       try_execute_loop.simps[of F run cmd 2] execute_def Let_def lim sleep_def log_msg_def
       retry_msg_def)

theorem try_execute_three_attempts_witness:
  "num_shell_tries (default_flags ''10.0.0.1'') = 3
   \<and> try_execute (default_flags ''10.0.0.1'') (fails_first 2) [Str ''sudo'', Str ''vgs'']
       (fresh_world empty_registry) =
       (Inr True,
        \<lparr> db = empty_registry,
          history = [([Str ''sudo'', Str ''vgs''], True), ([Str ''sudo'', Str ''vgs''], True),
                     ([Str ''sudo'', Str ''vgs''], True)],
          sleeps = [1, 4],
          logs = [(EXCEPTION, retry_msg), (EXCEPTION, retry_msg)] \<rparr>)
   \<and> try_execute (default_flags ''10.0.0.1'') (fails_first 3) [Str ''sudo'', Str ''vgs'']
       (fresh_world empty_registry) =
       (Inl (ProcessExecutionError [] [] [Str ''sudo'', Str ''vgs''] None),
        \<lparr> db = empty_registry,
          history = [([Str ''sudo'', Str ''vgs''], True), ([Str ''sudo'', Str ''vgs''], True),
                     ([Str ''sudo'', Str ''vgs''], True)],
          sleeps = [1, 4],
          logs = [(EXCEPTION, retry_msg), (EXCEPTION, retry_msg)] \<rparr>)"
  using try_execute_three_attempts [of "default_flags ''10.0.0.1''" "fails_first 2"
          "fresh_world empty_registry" "[Str ''sudo'', Str ''vgs'']"]
        try_execute_three_attempts [of "default_flags ''10.0.0.1''" "fails_first 3"
          "fresh_world empty_registry" "[Str ''sudo'', Str ''vgs'']"]
  by (simp add: default_flags_def fails_first_def fresh_world_def exits_def)

section \<open>ensure_export\<close>

lemma ISCSI_create_export_first_failure:
  assumes "volume_allocate_iscsi_target (ensure_iscsi_targets F (db w) (vol_host v))
             (vol_id v) (vol_host v) = (Inr tid, r)"
    and "exit_code (run (map fst (history w)) (ietadm_new_target F v tid)) \<noteq> 0"
  shows "ISCSI_create_export F run v w =
           (Inl (ProcessExecutionError
                   (stdout (run (map fst (history w)) (ietadm_new_target F v tid)))
                   (stderr (run (map fst (history w)) (ietadm_new_target F v tid)))
                   (ietadm_new_target F v tid) None),
            w\<lparr>db := r, history := history w @ [(ietadm_new_target F v tid, True)]\<rparr>)"
  using assms by (simp add: ISCSI_create_export_def execute_def Let_def)

text \<open>
  C2. When the registry holds no target number for the volume, \<^verbatim>\<open>ISCSIDriver.ensure_export\<close>
  returns normally and leaves the world as it was but for one INFO record in the log:
  no command is started and the registry, hence every allocation, is unchanged.
\<close>

theorem ISCSI_ensure_export_no_slot:
  "volume_get_iscsi_target_num (db w) (vol_id v) = Inl NotFound \<Longrightarrow>
   ISCSI_ensure_export F run v w = (Inr (), w\<lparr>logs := logs w @ [(INFO, skip_ensure_msg)]\<rparr>)"
  by (simp add: ISCSI_ensure_export_def log_msg_def)

theorem ISCSI_ensure_export_no_slot_witness:
  "volume_get_iscsi_target_num (db (fresh_world empty_registry)) (vol_id vol1) = Inl NotFound
   \<and> ISCSI_ensure_export small_flags (refuses []) vol1 (fresh_world empty_registry) =
       (Inr (), \<lparr> db = empty_registry, history = [], sleeps = [],
                  logs = [(INFO, skip_ensure_msg)] \<rparr>)"
  using ISCSI_ensure_export_no_slot [of "fresh_world empty_registry" vol1 small_flags "refuses []"]
  by (simp add: volume_get_iscsi_target_num_def fresh_world_def empty_registry_def vol1_def)

text \<open>
  C10. When the registry holds a target number for the volume, \<^verbatim>\<open>ISCSIDriver.ensure_export\<close>
  starts its two \<^verbatim>\<open>ietadm\<close> commands with exit-code checking disabled and returns normally
  whatever the tool's exit codes are. \<^verbatim>\<open>ISCSIDriver.create_export\<close> starts the same first
  command with checking enabled: when that command exits non-zero, its
  \<open>ProcessExecutionError\<close> reaches the caller.
\<close>

theorem ISCSI_ensure_export_ignores_exit_codes:
  "(volume_get_iscsi_target_num (db w) (vol_id v) = Inr tid \<longrightarrow>
      ISCSI_ensure_export F run v w =
        (Inr (), w\<lparr>history := history w @ [(ietadm_new_target F v tid, False),
                                              (ietadm_new_lun F v tid, False)]\<rparr>))
   \<and> (volume_allocate_iscsi_target (ensure_iscsi_targets F (db w) (vol_host v))
         (vol_id v) (vol_host v) = (Inr tid', r)
       \<and> exit_code (run (map fst (history w)) (ietadm_new_target F v tid')) \<noteq> 0 \<longrightarrow>
      ISCSI_create_export F run v w =
        (Inl (ProcessExecutionError
                (stdout (run (map fst (history w)) (ietadm_new_target F v tid')))
                (stderr (run (map fst (history w)) (ietadm_new_target F v tid')))
                (ietadm_new_target F v tid') None),
         w\<lparr>db := r, history := history w @ [(ietadm_new_target F v tid', True)]\<rparr>))"
  by (simp add: ISCSI_ensure_export_def execute_def Let_def ISCSI_create_export_first_failure)

theorem ISCSI_ensure_export_ignores_exit_codes_witness:
  "volume_get_iscsi_target_num (db (fresh_world registry1)) (vol_id vol1) = Inr 1
   \<and> ISCSI_ensure_export small_flags (refuses ''File exists'') vol1 (fresh_world registry1) =
       (Inr (), \<lparr> db = registry1,
                  history = [(ietadm_new_target small_flags vol1 1, False),
                             (ietadm_new_lun small_flags vol1 1, False)],
                  sleeps = [], logs = [] \<rparr>)
   \<and> fst (volume_allocate_iscsi_target
            (ensure_iscsi_targets small_flags (db (fresh_world empty_registry)) (vol_host vol1))
            (vol_id vol1) (vol_host vol1)) = Inr 1
   \<and> exit_code (refuses ''File exists'' [] (ietadm_new_target small_flags vol1 1)) \<noteq> 0
   \<and> fst (ISCSI_create_export small_flags (refuses ''File exists'') vol1
            (fresh_world empty_registry)) =
       Inl (ProcessExecutionError [] ''File exists'' (ietadm_new_target small_flags vol1 1) None)"
  using ISCSI_ensure_export_ignores_exit_codes [where w = "fresh_world registry1" and v = vol1
          and tid = 1 and F = small_flags and run = "refuses ''File exists''"]
        ISCSI_ensure_export_ignores_exit_codes [where w = "fresh_world empty_registry"
          and v = vol1 and F = small_flags and tid' = 1 and run = "refuses ''File exists''"
          and r = "\<lparr> iscsi_targets =
                       [\<lparr>it_host = ''host1'', target_num = 1, it_volume = Some 1\<rparr>,
                        \<lparr>it_host = ''host1'', target_num = 2, it_volume = None\<rparr>],
                     export_devices = [] \<rparr>"]
  by (simp add: volume_get_iscsi_target_num_def fresh_world_def registry1_def vol1_def
       empty_registry_def small_flags_def default_flags_def refuses_def
       volume_allocate_iscsi_target_def ensure_iscsi_targets_def iscsi_target_count_by_host_def
       iscsi_target_create_safe_def upto.simps)

section \<open>remove_export\<close>

lemma ISCSI_remove_export_db: "db (snd (ISCSI_remove_export F run v w)) = db w"
  by (simp add: ISCSI_remove_export_def execute_def Let_def log_msg_def
      split: sum.splits prod.splits)

lemma AOE_remove_export_db: "db (snd (AOE_remove_export F run v w)) = db w"
proof -
  have *: "\<And>c w w' x. try_execute F run c w = (x, w') \<Longrightarrow> db w' = db w"
    by (metis try_execute_db snd_conv)
  show ?thesis
    by (auto simp: AOE_remove_export_def split: sum.splits prod.splits dest!: *)
qed

text \<open>
  C1, as stated, fails: the drivers never release the slot. After
  \<^verbatim>\<open>ISCSIDriver.remove_export\<close> has torn the export down and returned normally, the
  registry still gives target 1 for the volume; the lookup does not fail with
  \<open>NotFound\<close>.
\<close>

theorem remove_export_keeps_slot_counterexample:
  "fst (ISCSI_remove_export small_flags (prints []) vol1 (fresh_world registry1)) = Inr ()
   \<and> volume_get_iscsi_target_num
         (db (snd (ISCSI_remove_export small_flags (prints []) vol1 (fresh_world registry1))))
         (vol_id vol1) = Inr 1
   \<and> volume_get_iscsi_target_num
         (db (snd (ISCSI_remove_export small_flags (prints []) vol1 (fresh_world registry1))))
         (vol_id vol1) \<noteq> Inl NotFound"
  by (simp add: ISCSI_remove_export_def volume_get_iscsi_target_num_def fresh_world_def
       registry1_def vol1_def execute_def Let_def prints_def exits_def)

text \<open>
  C1, amended. \<^verbatim>\<open>ISCSIDriver.remove_export\<close> looks the target number up first. If none is
  recorded it returns normally, having started no command and written one INFO record.
  If one is recorded it runs \<^verbatim>\<open>ietadm --op show\<close>; when that fails it returns normally
  after one more INFO record and no further command, and when it succeeds it deletes
  lun 0 and then the target. Neither \<^verbatim>\<open>ISCSIDriver.remove_export\<close> nor
  \<^verbatim>\<open>AOEDriver.remove_export\<close> ever changes the registry, so a lookup afterwards gives what
  it gave before.
\<close>

theorem remove_export_leaves_registry:
  "(volume_get_iscsi_target_num (db w) (vol_id v) = Inl NotFound \<longrightarrow>
      ISCSI_remove_export F run v w =
        (Inr (), w\<lparr>logs := logs w @ [(INFO, skip_remove_unprovisioned_msg)]\<rparr>))
   \<and> (volume_get_iscsi_target_num (db w) (vol_id v) = Inr tid
       \<and> exit_code (run (map fst (history w)) (ietadm_show tid)) \<noteq> 0 \<longrightarrow>
      ISCSI_remove_export F run v w =
        (Inr (), w\<lparr>history := history w @ [(ietadm_show tid, True)],
                   logs := logs w @ [(INFO, skip_remove_unexported_msg)]\<rparr>))
   \<and> (volume_get_iscsi_target_num (db w) (vol_id v) = Inr tid
       \<and> exit_code (run (map fst (history w)) (ietadm_show tid)) = 0
       \<and> exit_code (run (map fst (history w) @ [ietadm_show tid]) (ietadm_delete_lun tid)) = 0
       \<and> exit_code (run (map fst (history w) @ [ietadm_show tid, ietadm_delete_lun tid])
                      (ietadm_delete_target tid)) = 0 \<longrightarrow>
      ISCSI_remove_export F run v w =
        (Inr (), w\<lparr>history := history w @ [(ietadm_show tid, True),
                      (ietadm_delete_lun tid, True), (ietadm_delete_target tid, True)]\<rparr>))
   \<and> db (snd (ISCSI_remove_export F run v w)) = db w
   \<and> db (snd (AOE_remove_export F run v w)) = db w"
  by (simp add: ISCSI_remove_export_db AOE_remove_export_db)
     (simp add: ISCSI_remove_export_def execute_def Let_def log_msg_def)

theorem remove_export_leaves_registry_witness:
  "volume_get_iscsi_target_num (db (fresh_world empty_registry)) (vol_id vol1) = Inl NotFound
   \<and> ISCSI_remove_export small_flags (prints []) vol1 (fresh_world empty_registry) =
       (Inr (), \<lparr> db = empty_registry, history = [], sleeps = [],
                  logs = [(INFO, skip_remove_unprovisioned_msg)] \<rparr>)
   \<and> volume_get_iscsi_target_num (db (fresh_world registry1)) (vol_id vol1) = Inr 1
   \<and> exit_code (refuses [] [] (ietadm_show 1)) \<noteq> 0
   \<and> ISCSI_remove_export small_flags (refuses []) vol1 (fresh_world registry1) =
       (Inr (), \<lparr> db = registry1, history = [(ietadm_show 1, True)], sleeps = [],
                  logs = [(INFO, skip_remove_unexported_msg)] \<rparr>)
   \<and> ISCSI_remove_export small_flags (prints []) vol1 (fresh_world registry1) =
       (Inr (), \<lparr> db = registry1,
                  history = [(ietadm_show 1, True), (ietadm_delete_lun 1, True),
                             (ietadm_delete_target 1, True)],
                  sleeps = [], logs = [] \<rparr>)
   \<and> db (snd (AOE_remove_export small_flags (prints []) vol1 (fresh_world registry1))) = registry1"
  using remove_export_leaves_registry [where w = "fresh_world empty_registry" and v = vol1
          and F = small_flags and run = "prints []"]
        remove_export_leaves_registry [where w = "fresh_world registry1" and v = vol1
          and F = small_flags and run = "refuses []" and tid = 1]
        remove_export_leaves_registry [where w = "fresh_world registry1" and v = vol1
          and F = small_flags and run = "prints []" and tid = 1]
  by (simp add: volume_get_iscsi_target_num_def fresh_world_def registry1_def vol1_def
       empty_registry_def refuses_def prints_def exits_def)

section \<open>create_export\<close>

lemma allocate_iscsi_sample:
  "volume_allocate_iscsi_target
     (ensure_iscsi_targets small_flags (db (fresh_world empty_registry)) (vol_host vol1))
     (vol_id vol1) (vol_host vol1) = (Inr 1, registry_iscsi1)"
  by (simp add: fresh_world_def vol1_def empty_registry_def small_flags_def default_flags_def
       registry_iscsi1_def volume_allocate_iscsi_target_def ensure_iscsi_targets_def
       iscsi_target_count_by_host_def iscsi_target_create_safe_def upto.simps)

lemma allocate_aoe_sample:
  "volume_allocate_shelf_and_blade (ensure_blades small_flags (db (fresh_world empty_registry)))
     (vol_id vol1) = (Inr (0, 0), registry_aoe1)"
  by (simp add: fresh_world_def vol1_def empty_registry_def small_flags_def default_flags_def
       registry_aoe1_def volume_allocate_shelf_and_blade_def ensure_blades_def
       export_device_count_def export_device_create_safe_def upto.simps)

text \<open>
  C7, as stated, fails: when \<^verbatim>\<open>ietadm\<close> refuses to create the target (here with the
  message of an existing target), \<^verbatim>\<open>ISCSIDriver.create_export\<close> does not return normally:
  the \<open>ProcessExecutionError\<close> of the first command reaches the caller, the second
  command is not started and the target number stays allocated.
\<close>

theorem create_export_error_surfaces_counterexample:
  "ISCSI_create_export small_flags (refuses ''File exists'') vol1 (fresh_world empty_registry) =
     (Inl (ProcessExecutionError [] ''File exists'' (ietadm_new_target small_flags vol1 1) None),
      \<lparr> db = registry_iscsi1,
        history = [(ietadm_new_target small_flags vol1 1, True)], sleeps = [], logs = [] \<rparr>)"
  by (simp add: ISCSI_create_export_def execute_def Let_def fresh_world_def vol1_def
       empty_registry_def small_flags_def default_flags_def refuses_def
       registry_iscsi1_def volume_allocate_iscsi_target_def ensure_iscsi_targets_def iscsi_target_count_by_host_def
       iscsi_target_create_safe_def upto.simps)

text \<open>
  C7, amended. \<^verbatim>\<open>create_export\<close> of the iSCSI and AoE drivers allocates a slot and then
  configures the export tool at that slot, and an error of the tool is not swallowed.
  \<^verbatim>\<open>ISCSIDriver.create_export\<close> raises the \<open>ProcessExecutionError\<close> of the first of its
  two commands that exits non-zero, and returns normally when both exit with zero.
  \<^verbatim>\<open>AOEDriver.create_export\<close> raises the error of \<^verbatim>\<open>vblade-persist setup\<close> when every
  attempt of it fails; when the setup succeeds it sleeps 2 and runs \<^verbatim>\<open>auto all\<close> and
  \<^verbatim>\<open>start all\<close> unchecked, returning normally whatever their exit codes. In each case
  the allocated slot stays in the registry.
\<close>

theorem create_export_surfaces_tool_errors:
  "(volume_allocate_iscsi_target (ensure_iscsi_targets F (db w) (vol_host v))
         (vol_id v) (vol_host v) = (Inr tid, r)
       \<and> exit_code (run (map fst (history w)) (ietadm_new_target F v tid)) \<noteq> 0 \<longrightarrow>
      ISCSI_create_export F run v w =
        (Inl (ProcessExecutionError
                (stdout (run (map fst (history w)) (ietadm_new_target F v tid)))
                (stderr (run (map fst (history w)) (ietadm_new_target F v tid)))
                (ietadm_new_target F v tid) None),
         w\<lparr>db := r, history := history w @ [(ietadm_new_target F v tid, True)]\<rparr>))
   \<and> (volume_allocate_iscsi_target (ensure_iscsi_targets F (db w) (vol_host v))
         (vol_id v) (vol_host v) = (Inr tid, r)
       \<and> exit_code (run (map fst (history w)) (ietadm_new_target F v tid)) = 0
       \<and> exit_code (run (map fst (history w) @ [ietadm_new_target F v tid])
                      (ietadm_new_lun F v tid)) \<noteq> 0 \<longrightarrow>
      ISCSI_create_export F run v w =
        (Inl (ProcessExecutionError
                (stdout (run (map fst (history w) @ [ietadm_new_target F v tid])
                           (ietadm_new_lun F v tid)))
                (stderr (run (map fst (history w) @ [ietadm_new_target F v tid])
                           (ietadm_new_lun F v tid)))
                (ietadm_new_lun F v tid) None),
         w\<lparr>db := r, history := history w @ [(ietadm_new_target F v tid, True),
                                               (ietadm_new_lun F v tid, True)]\<rparr>))
   \<and> (volume_allocate_iscsi_target (ensure_iscsi_targets F (db w) (vol_host v))
         (vol_id v) (vol_host v) = (Inr tid, r)
       \<and> exit_code (run (map fst (history w)) (ietadm_new_target F v tid)) = 0
       \<and> exit_code (run (map fst (history w) @ [ietadm_new_target F v tid])
                      (ietadm_new_lun F v tid)) = 0 \<longrightarrow>
      ISCSI_create_export F run v w =
        (Inr (), w\<lparr>db := r, history := history w @ [(ietadm_new_target F v tid, True),
                                                      (ietadm_new_lun F v tid, True)]\<rparr>))
   \<and> (volume_allocate_shelf_and_blade (ensure_blades F (db w)) (vol_id v) = (Inr (s, b), r')
       \<and> (\<forall>h. exit_code (run h (vblade_setup_cmd F v s b)) \<noteq> 0) \<longrightarrow>
      (\<exists>so se w'. AOE_create_export F run v w =
          (Inl (ProcessExecutionError so se (vblade_setup_cmd F v s b) None), w')
          \<and> db w' = r'))
   \<and> (volume_allocate_shelf_and_blade (ensure_blades F (db w)) (vol_id v) = (Inr (s, b), r')
       \<and> exit_code (run (map fst (history w)) (vblade_setup_cmd F v s b)) = 0 \<longrightarrow>
      AOE_create_export F run v w =
        (Inr (), w\<lparr>db := r',
                   history := history w @ [(vblade_setup_cmd F v s b, True),
                      ([Str ''sudo'', Str ''vblade-persist'', Str ''auto'', Str ''all''], False),
                      ([Str ''sudo'', Str ''vblade-persist'', Str ''start'', Str ''all''], False)],
                   sleeps := sleeps w @ [2]\<rparr>))"
proof (intro conjI impI)
  assume a: "volume_allocate_shelf_and_blade (ensure_blades F (db w)) (vol_id v) = (Inr (s, b), r')
       \<and> (\<forall>h. exit_code (run h (vblade_setup_cmd F v s b)) \<noteq> 0)"
  then obtain so se w' where
    t: "try_execute F run (vblade_setup_cmd F v s b) (w\<lparr>db := r'\<rparr>) =
          (Inl (ProcessExecutionError so se (vblade_setup_cmd F v s b) None), w')"
    using try_execute_fails by blast
  have "db w' = r'"
    using try_execute_db [of F run "vblade_setup_cmd F v s b" "w\<lparr>db := r'\<rparr>"] t by simp
  with a t show "\<exists>so se w'. AOE_create_export F run v w =
          (Inl (ProcessExecutionError so se (vblade_setup_cmd F v s b) None), w') \<and> db w' = r'"
    by (simp add: AOE_create_export_def)
next
  assume "volume_allocate_shelf_and_blade (ensure_blades F (db w)) (vol_id v) = (Inr (s, b), r')
       \<and> exit_code (run (map fst (history w)) (vblade_setup_cmd F v s b)) = 0"
  then show "AOE_create_export F run v w =
        (Inr (), w\<lparr>db := r',
                   history := history w @ [(vblade_setup_cmd F v s b, True),
                      ([Str ''sudo'', Str ''vblade-persist'', Str ''auto'', Str ''all''], False),
                      ([Str ''sudo'', Str ''vblade-persist'', Str ''start'', Str ''all''], False)],
                   sleeps := sleeps w @ [2]\<rparr>)"
    by (simp add: AOE_create_export_def try_execute_first_ok execute_unchecked sleep_def Let_def)
qed (simp_all add: ISCSI_create_export_def execute_def Let_def)


theorem create_export_surfaces_tool_errors_witness:
  "volume_allocate_iscsi_target
     (ensure_iscsi_targets small_flags (db (fresh_world empty_registry)) (vol_host vol1))
     (vol_id vol1) (vol_host vol1) = (Inr 1, registry_iscsi1)
   \<and> ISCSI_create_export small_flags (refuses ''File exists'') vol1 (fresh_world empty_registry) =
       (Inl (ProcessExecutionError [] ''File exists'' (ietadm_new_target small_flags vol1 1) None),
        \<lparr> db = registry_iscsi1, history = [(ietadm_new_target small_flags vol1 1, True)],
          sleeps = [], logs = [] \<rparr>)
   \<and> ISCSI_create_export small_flags (fails_from 1) vol1 (fresh_world empty_registry) =
       (Inl (ProcessExecutionError [] [] (ietadm_new_lun small_flags vol1 1) None),
        \<lparr> db = registry_iscsi1,
          history = [(ietadm_new_target small_flags vol1 1, True),
                     (ietadm_new_lun small_flags vol1 1, True)],
          sleeps = [], logs = [] \<rparr>)
   \<and> ISCSI_create_export small_flags (prints []) vol1 (fresh_world empty_registry) =
       (Inr (),
        \<lparr> db = registry_iscsi1,
          history = [(ietadm_new_target small_flags vol1 1, True),
                     (ietadm_new_lun small_flags vol1 1, True)],
          sleeps = [], logs = [] \<rparr>)
   \<and> volume_allocate_shelf_and_blade (ensure_blades small_flags (db (fresh_world empty_registry)))
       (vol_id vol1) = (Inr (0, 0), registry_aoe1)
   \<and> (\<exists>so se w'. AOE_create_export small_flags (refuses ''File exists'') vol1
                     (fresh_world empty_registry) =
          (Inl (ProcessExecutionError so se (vblade_setup_cmd small_flags vol1 0 0) None), w')
          \<and> db w' = registry_aoe1)
   \<and> AOE_create_export small_flags (prints []) vol1 (fresh_world empty_registry) =
       (Inr (),
        \<lparr> db = registry_aoe1,
          history = [(vblade_setup_cmd small_flags vol1 0 0, True),
                      ([Str ''sudo'', Str ''vblade-persist'', Str ''auto'', Str ''all''], False),
                      ([Str ''sudo'', Str ''vblade-persist'', Str ''start'', Str ''all''], False)],
          sleeps = [2], logs = [] \<rparr>)"
  using create_export_surfaces_tool_errors [where w = "fresh_world empty_registry" and v = vol1
          and F = small_flags and run = "refuses ''File exists''" and tid = 1
          and r = registry_iscsi1 and s = 0 and b = 0 and r' = registry_aoe1]
        create_export_surfaces_tool_errors [where w = "fresh_world empty_registry" and v = vol1
          and F = small_flags and run = "fails_from 1" and tid = 1
          and r = registry_iscsi1 and s = 0 and b = 0 and r' = registry_aoe1]
        create_export_surfaces_tool_errors [where w = "fresh_world empty_registry" and v = vol1
          and F = small_flags and run = "prints []" and tid = 1
          and r = registry_iscsi1 and s = 0 and b = 0 and r' = registry_aoe1]
  by (simp add: allocate_iscsi_sample allocate_aoe_sample refuses_def prints_def fails_from_def
       exits_def)
     (simp add: fresh_world_def)

section \<open>iSCSI properties\<close>

lemma partition_spec_location:
  "partition_on CHR '' '' spec_location = (''10.0.0.5:3260,1'', '' '', ''iqn.2010-10.org.openstack:vol-1'')"
  by (simp add: partition_on_def spec_location_def)

lemma split_ws_samples:
  "split_ws ''CHAP user secret'' = [''CHAP'', ''user'', ''secret'']"
  "split_ws ''CHAP user'' = [''CHAP'', ''user'']"
  by (simp_all add: split_ws_def is_space_def)

lemma properties_of_location_three:
  "a \<noteq> [] \<Longrightarrow> split_ws a = [m, u, p] \<Longrightarrow>
   properties_of_location d loc (Some a) =
     Inr \<lparr> target_discovered = d, target_iqn = snd (snd (partition_on CHR '' '' loc)),
           target_portal = hd (split_on CHR '','' (fst (partition_on CHR '' '' loc))),
           auth_method = Some m, auth_username = Some u, auth_password = Some p \<rparr>"
  by (simp add: properties_of_location_def truthy_def split: prod.splits)

lemma properties_of_location_other:
  "a \<noteq> [] \<Longrightarrow> length (split_ws a) \<noteq> 3 \<Longrightarrow> properties_of_location d loc (Some a) = Inl ValueError"
  by (auto simp: properties_of_location_def truthy_def split: prod.splits list.splits)


lemma get_iscsi_properties_stored:
  "truthy (provider_location v) = Some loc \<Longrightarrow>
   get_iscsi_properties F run v w = (properties_of_location False loc (provider_auth v), w)"
  by (simp add: get_iscsi_properties_def)

text \<open>Whatever the source of the location, a result comes from \<open>properties_of_location\<close>.\<close>

lemma get_iscsi_properties_cases:
  "(\<exists>e w'. get_iscsi_properties F run v w = (Inl e, w')
        \<and> truthy (provider_location v) = None
        \<and> (is_ProcessExecutionError e
            \<or> e = Error (''Could not find iSCSI export  for volume '' @ vol_name v)))
   \<or> (\<exists>d loc w'. get_iscsi_properties F run v w =
          (properties_of_location d loc (provider_auth v), w'))"
proof (cases "truthy (provider_location v)")
  case (Some loc)
  then show ?thesis by (auto simp: get_iscsi_properties_stored)
next
  case None
  obtain x w1 where d: "do_iscsi_discovery F run v w = (x, w1)"
    by (cases "do_iscsi_discovery F run v w")
  show ?thesis
  proof (cases x)
    case (Inl e)
    with d have "is_ProcessExecutionError e"
      by (auto simp: do_iscsi_discovery_def execute_def Let_def split: if_splits prod.splits)
    with None d Inl show ?thesis by (simp add: get_iscsi_properties_def)
  next
    case (Inr found)
    with None d show ?thesis
      by (cases "truthy found") (auto simp: get_iscsi_properties_def)
  qed
qed

lemma discover_fails_with_properties:
  "get_iscsi_properties F run v w = (Inl e, w') \<Longrightarrow>
   ISCSI_discover_volume F run v w = (Inl e, w')
   \<and> ISCSI_undiscover_volume F run v w = (Inl e, w')"
  by (simp add: ISCSI_discover_volume_def ISCSI_undiscover_volume_def
       get_iscsi_properties_for_volume_def)

text \<open>
  C3, as stated, fails: for the stored location
  \<^verbatim>\<open>10.0.0.5:3260,1 iqn.2010-10.org.openstack:vol-1\<close> the portal returned is not
  \<^verbatim>\<open>10.0.0.5:3260,1\<close>; the code cuts the part before the space at its first comma.
\<close>

theorem get_iscsi_properties_portal_counterexample:
  "target_portal (projr (fst (get_iscsi_properties (default_flags ''10.0.0.1'') (prints [])
      (vol1\<lparr>provider_location := Some ''10.0.0.5:3260,1 iqn.2010-10.org.openstack:vol-1''\<rparr>)
      (fresh_world empty_registry)))) \<noteq> ''10.0.0.5:3260,1''"
  using partition_spec_location
  by (simp add: get_iscsi_properties_def truthy_def properties_of_location_def vol1_def spec_location_def)

text \<open>
  C3, amended. For a volume whose \<^verbatim>\<open>provider_location\<close> is exactly
  \<^verbatim>\<open>10.0.0.5:3260,1 iqn.2010-10.org.openstack:vol-1\<close> and whose \<^verbatim>\<open>provider_auth\<close> is absent,
  \<^verbatim>\<open>_get_iscsi_properties\<close> returns the portal \<^verbatim>\<open>10.0.0.5:3260\<close> (the portal group tag
  \<^verbatim>\<open>,1\<close> is dropped), the IQN \<^verbatim>\<open>iqn.2010-10.org.openstack:vol-1\<close> and
  \<^verbatim>\<open>target_discovered = False\<close>, with no authentication keys, and leaves the world as it
  was: no discovery command is started.
\<close>

theorem get_iscsi_properties_stored_location:
  "get_iscsi_properties F run
     (v\<lparr>provider_location := Some ''10.0.0.5:3260,1 iqn.2010-10.org.openstack:vol-1'',
        provider_auth := None\<rparr>) w =
   (Inr \<lparr> target_discovered = False, target_iqn = ''iqn.2010-10.org.openstack:vol-1'',
          target_portal = ''10.0.0.5:3260'', auth_method = None, auth_username = None,
          auth_password = None \<rparr>, w)"
  using partition_spec_location
  by (simp add: get_iscsi_properties_def truthy_def properties_of_location_def spec_location_def)

text \<open>
  C9. Let \<^verbatim>\<open>provider_auth\<close> be a non-empty string. If it splits at whitespace into exactly
  three tokens, every result of \<^verbatim>\<open>_get_iscsi_properties\<close> carries them, in order, as
  \<^verbatim>\<open>auth_method\<close>, \<^verbatim>\<open>auth_username\<close> and \<^verbatim>\<open>auth_password\<close>, and with a stored location the
  call does return, with the properties shown. If it splits into any other number of
  tokens, \<^verbatim>\<open>_get_iscsi_properties\<close> raises, and \<^verbatim>\<open>discover_volume\<close> and
  \<^verbatim>\<open>undiscover_volume\<close> raise the same error: it is the \<open>ValueError\<close> of the tuple
  unpacking, unless no location was stored and the discovery before it already failed.
\<close>

theorem get_iscsi_properties_auth:
  assumes auth: "provider_auth v = Some a" and ne: "a \<noteq> []"
  shows "(split_ws a = [m, u, p] \<longrightarrow>
            (\<forall>props w'. get_iscsi_properties F run v w = (Inr props, w') \<longrightarrow>
               auth_method props = Some m \<and> auth_username props = Some u
               \<and> auth_password props = Some p)
            \<and> (\<forall>loc. truthy (provider_location v) = Some loc \<longrightarrow>
                 get_iscsi_properties F run v w =
                   (Inr \<lparr> target_discovered = False,
                          target_iqn = snd (snd (partition_on CHR '' '' loc)),
                          target_portal = hd (split_on CHR '','' (fst (partition_on CHR '' '' loc))),
                          auth_method = Some m, auth_username = Some u,
                          auth_password = Some p \<rparr>, w)))
       \<and> (length (split_ws a) \<noteq> 3 \<longrightarrow>
            (\<exists>e w'. get_iscsi_properties F run v w = (Inl e, w')
                \<and> ISCSI_discover_volume F run v w = (Inl e, w')
                \<and> ISCSI_undiscover_volume F run v w = (Inl e, w')
                \<and> (e = ValueError
                    \<or> truthy (provider_location v) = None
                        \<and> (is_ProcessExecutionError e
                             \<or> e = Error (''Could not find iSCSI export  for volume ''
                                             @ vol_name v)))
                \<and> (truthy (provider_location v) \<noteq> None \<longrightarrow> w' = w)))"
proof (intro conjI impI allI)
  fix props w'
  assume t: "split_ws a = [m, u, p]" and r: "get_iscsi_properties F run v w = (Inr props, w')"
  from get_iscsi_properties_cases [of F run v w] r obtain d loc where
    "properties_of_location d loc (provider_auth v) = Inr props"
    by auto
  with auth ne t show "auth_method props = Some m" "auth_username props = Some u"
      "auth_password props = Some p"
    by (auto simp: properties_of_location_three)
next
  fix loc
  assume "split_ws a = [m, u, p]" "truthy (provider_location v) = Some loc"
  with auth ne show "get_iscsi_properties F run v w =
                   (Inr \<lparr> target_discovered = False,
                          target_iqn = snd (snd (partition_on CHR '' '' loc)),
                          target_portal = hd (split_on CHR '','' (fst (partition_on CHR '' '' loc))),
                          auth_method = Some m, auth_username = Some u,
                          auth_password = Some p \<rparr>, w)"
    by (simp add: get_iscsi_properties_stored properties_of_location_three)
next
  assume len: "length (split_ws a) \<noteq> 3"
  have pl: "\<And>d loc. properties_of_location d loc (provider_auth v) = Inl ValueError"
    using auth ne len by (simp add: properties_of_location_other)
  show "\<exists>e w'. get_iscsi_properties F run v w = (Inl e, w')
                \<and> ISCSI_discover_volume F run v w = (Inl e, w')
                \<and> ISCSI_undiscover_volume F run v w = (Inl e, w')
                \<and> (e = ValueError
                    \<or> truthy (provider_location v) = None
                        \<and> (is_ProcessExecutionError e
                             \<or> e = Error (''Could not find iSCSI export  for volume ''
                                             @ vol_name v)))
                \<and> (truthy (provider_location v) \<noteq> None \<longrightarrow> w' = w)"
  proof (cases "truthy (provider_location v)")
    case (Some loc)
    then have "get_iscsi_properties F run v w = (Inl ValueError, w)"
      by (simp add: get_iscsi_properties_stored pl)
    then show ?thesis
      using discover_fails_with_properties [of F run v w ValueError w] by simp
  next
    case None
    from get_iscsi_properties_cases [of F run v w] obtain e w' where
      "get_iscsi_properties F run v w = (Inl e, w')"
      "e = ValueError \<or> is_ProcessExecutionError e
         \<or> e = Error (''Could not find iSCSI export  for volume '' @ vol_name v)"
      by (auto simp: pl)
    then show ?thesis
      using discover_fails_with_properties [of F run v w e w'] None by auto
  qed
qed

theorem get_iscsi_properties_auth_witness:
  "provider_auth (vol_chap ''CHAP user secret'') = Some ''CHAP user secret''
   \<and> split_ws ''CHAP user secret'' = [''CHAP'', ''user'', ''secret'']
   \<and> get_iscsi_properties small_flags (prints []) (vol_chap ''CHAP user secret'')
        (fresh_world empty_registry) =
       (Inr \<lparr> target_discovered = False, target_iqn = ''iqn.2010-10.org.openstack:vol-1'',
              target_portal = ''10.0.0.5:3260'', auth_method = Some ''CHAP'',
              auth_username = Some ''user'', auth_password = Some ''secret'' \<rparr>,
        fresh_world empty_registry)
   \<and> provider_auth (vol_chap ''CHAP user'') = Some ''CHAP user''
   \<and> length (split_ws ''CHAP user'') \<noteq> 3
   \<and> get_iscsi_properties small_flags (prints []) (vol_chap ''CHAP user'')
        (fresh_world empty_registry) = (Inl ValueError, fresh_world empty_registry)
   \<and> ISCSI_discover_volume small_flags (prints []) (vol_chap ''CHAP user'')
        (fresh_world empty_registry) = (Inl ValueError, fresh_world empty_registry)
   \<and> ISCSI_undiscover_volume small_flags (prints []) (vol_chap ''CHAP user'')
        (fresh_world empty_registry) = (Inl ValueError, fresh_world empty_registry)"
  using get_iscsi_properties_auth [where v = "vol_chap ''CHAP user secret''"
          and a = "''CHAP user secret''" and m = "''CHAP''" and u = "''user''"
          and p = "''secret''" and F = small_flags and run = "prints []"
          and w = "fresh_world empty_registry"]
        get_iscsi_properties_auth [where v = "vol_chap ''CHAP user''"
          and a = "''CHAP user''" and F = small_flags and run = "prints []"
          and w = "fresh_world empty_registry"]
        partition_spec_location
  by (auto simp: split_ws_samples vol_chap_def vol1_def truthy_def spec_location_def)

section \<open>delete_volume\<close>

lemma str_int_0: "str_int 0 = ''0''"
  by (simp add: str_int_def str_nat.simps digit_char_def)

text \<open>
  C8 at a volume of size 0. \<^verbatim>\<open>create_volume\<close> gives it 100M of backing storage, and
  \<^verbatim>\<open>delete_volume\<close>, finding the logical volume present, runs \<^verbatim>\<open>dd\<close> with
  \<^verbatim>\<open>count=0\<close> and \<^verbatim>\<open>bs=1M\<close>: no block of the 100M is overwritten before \<^verbatim>\<open>lvremove\<close>.
\<close>

theorem delete_volume_size_zero_writes_nothing:
  "create_volume (default_flags ''10.0.0.1'') (prints []) vol0 (fresh_world empty_registry) =
     (Inr (),
      \<lparr> db = empty_registry,
        history = [([Str ''sudo'', Str ''lvcreate'', Str ''-L'', Str ''100M'', Str ''-n'',
                     Str ''vol-0'', Str ''nova-volumes''], True)],
        sleeps = [], logs = [] \<rparr>)
   \<and> delete_volume (default_flags ''10.0.0.1'') (prints []) vol0 (fresh_world empty_registry) =
     (Inr None,
      \<lparr> db = empty_registry,
        history = [([Str ''sudo'', Str ''lvdisplay'', Str ''nova-volumes/vol-0''], True),
                   ([Str ''sudo'', Str ''dd'', Str ''if=/dev/zero'',
                     Str ''of=/dev/mapper/nova--volumes-vol--0'', Str ''count=0'',
                     Str ''bs=1M''], True),
                   ([Str ''sudo'', Str ''lvremove'', Str ''-f'', Str ''nova-volumes/vol-0''],
                    True)],
        sleeps = [], logs = [] \<rparr>)"
  by (simp add: create_volume_def delete_volume_def try_execute_first_ok execute_ok
       lvdisplay_cmd_def dd_cmd_def lvremove_cmd_def local_path_def escape_dashes_def
       default_flags_def prints_def exits_def vol0_def fresh_world_def str_int_0)

section \<open>discover_volume\<close>

lemma execute_attempts_error:
  "execute_attempts run cmd n w = (Inl e, w') \<Longrightarrow> is_ProcessExecutionError e"
proof (induction n arbitrary: w)
  case 0
  then show ?case by (auto simp: execute_def Let_def split: if_splits)
next
  case (Suc n)
  then show ?case
    by (auto simp: execute_def Let_def split: if_splits)
qed

lemma run_iscsiadm_error:
  "run_iscsiadm run props c n w = (Inl e, w') \<Longrightarrow> is_ProcessExecutionError e"
  by (auto simp: run_iscsiadm_def split: prod.splits sum.splits dest: execute_attempts_error)

lemma login_and_automatic_error:
  "login_and_automatic F run props w = (Inl e, w') \<Longrightarrow> is_ProcessExecutionError e"
  by (auto simp: login_and_automatic_def iscsiadm_update_def split: prod.splits sum.splits
      dest: run_iscsiadm_error)

lemma ISCSI_discover_volume_path: "fst (ISCSI_discover_volume F run v w) \<noteq> Inr None"
  by (auto simp: ISCSI_discover_volume_def split: prod.splits sum.splits)

lemma sample_node_created:
  "exit_code (run [] (iscsiadm_cmd sample_props (Tup [''--op'', ''new'']))) = 0 \<Longrightarrow>
   get_iscsi_properties_for_volume small_flags run (vol_chap []) (fresh_world empty_registry) =
     (Inr sample_props, world_node_created)"
  using partition_spec_location
  by (simp add: get_iscsi_properties_def get_iscsi_properties_for_volume_def vol_chap_def
       truthy_def properties_of_location_def run_iscsiadm_def execute_def Let_def
       sample_props_def world_node_created_def fresh_world_def log_msg_def vol1_def
       spec_location_def)

lemma sample_no_auth: "set_iscsi_auth run sample_props w = (Inr (), w)"
  by (simp add: set_iscsi_auth_def sample_props_def truthy_def)

lemma sample_props_fields:
  "target_iqn sample_props = ''iqn.2010-10.org.openstack:vol-1''"
  "target_portal sample_props = ''10.0.0.5:3260''"
  by (simp_all add: sample_props_def)

lemma login_samples:
  "fst (login_and_automatic small_flags (prints []) sample_props world_node_created) = Inr ()"
  "isl (fst (login_and_automatic small_flags (fails_from 1) sample_props world_node_created))"
  by (simp_all add: login_and_automatic_def run_iscsiadm_def iscsiadm_update_def execute_def
       Let_def eval_nat_numeral world_node_created_def small_flags_def default_flags_def
       prints_def fails_from_def exits_def log_msg_def)

text \<open>
  C6, as stated, fails: when \<^verbatim>\<open>aoe-stat\<close> does not list the device,
  \<^verbatim>\<open>AOEDriver.discover_volume\<close> returns normally, and what it returns is \<^verbatim>\<open>None\<close>, not a
  device path.
\<close>

theorem discover_volume_without_path_counterexample:
  "discover_volume AOEDriver small_flags (prints []) vol1 (fresh_world registry1) =
     (Inr None,
      \<lparr> db = registry1,
        history = [([Str ''sudo'', Str ''aoe-discover''], True),
                   ([Str ''sudo'', Str ''aoe-stat''], False)],
        sleeps = [], logs = [] \<rparr>)"
  by (simp add: AOE_discover_volume_def volume_get_shelf_and_blade_def execute_def Let_def
       registry1_def vol1_def fresh_world_def prints_def exits_def)

text \<open>
  C6, amended. \<^verbatim>\<open>AOEDriver.discover_volume\<close>, for a recorded shelf/blade pair and a
  successful \<^verbatim>\<open>aoe-discover\<close>, returns \<^verbatim>\<open>/dev/etherd/eS.B\<close> when the output of
  \<^verbatim>\<open>aoe-stat\<close> contains \<^verbatim>\<open>eS.B\<close> and returns \<^verbatim>\<open>None\<close>, without raising, when it does not.
  Every other protocol driver never returns without a path:
  \<^verbatim>\<open>ISCSIDriver.discover_volume\<close>, once the properties are there and the authentication
  is set, returns the by-path device when the login and the startup update succeed and
  raises \<open>Error\<close> (device not found) when either fails; the RBD and Sheepdog drivers
  always return their name-based path.
\<close>

theorem discover_volume_results:
  "(volume_get_shelf_and_blade (db w) (vol_id v) = Inr (s, b)
      \<and> exit_code (run (map fst (history w)) [Str ''sudo'', Str ''aoe-discover'']) = 0 \<longrightarrow>
    fst (discover_volume AOEDriver F run v w) =
      (if contains (stdout (run (map fst (history w) @ [[Str ''sudo'', Str ''aoe-discover'']])
                              [Str ''sudo'', Str ''aoe-stat'']))
            (''e'' @ str_int s @ ''.'' @ str_int b)
       then Inr (Some (''/dev/etherd/e'' @ str_int s @ ''.'' @ str_int b))
       else Inr None))
   \<and> (d \<noteq> AOEDriver \<longrightarrow> fst (discover_volume d F run v w) \<noteq> Inr None)
   \<and> (get_iscsi_properties_for_volume F run v w = (Inr props, w1)
        \<and> set_iscsi_auth run props w1 = (Inr (), w2) \<longrightarrow>
      (case login_and_automatic F run props w2 of
         (Inl e, w3) \<Rightarrow>
           discover_volume ISCSIDriver F run v w =
             (Inl (Error (''iSCSI device '' @ target_iqn props @ '' not found'')),
              log_msg ERROR ''%s'' w3)
       | (Inr u, w3) \<Rightarrow>
           discover_volume ISCSIDriver F run v w =
             (Inr (Some (''/dev/disk/by-path/ip-'' @ target_portal props @ ''-iscsi-''
                           @ target_iqn props @ ''-lun-0'')), w3)))
   \<and> discover_volume RBDDriver F run v w =
       (Inr (Some (''rbd:'' @ rbd_pool F @ ''/'' @ vol_name v)), w)
   \<and> discover_volume SheepdogDriver F run v w = (Inr (Some (''sheepdog:'' @ vol_name v)), w)"
proof (intro conjI impI)
  assume "volume_get_shelf_and_blade (db w) (vol_id v) = Inr (s, b)
      \<and> exit_code (run (map fst (history w)) [Str ''sudo'', Str ''aoe-discover'']) = 0"
  then show "fst (discover_volume AOEDriver F run v w) =
      (if contains (stdout (run (map fst (history w) @ [[Str ''sudo'', Str ''aoe-discover'']])
                              [Str ''sudo'', Str ''aoe-stat'']))
            (''e'' @ str_int s @ ''.'' @ str_int b)
       then Inr (Some (''/dev/etherd/e'' @ str_int s @ ''.'' @ str_int b))
       else Inr None)"
    by (simp add: AOE_discover_volume_def execute_def Let_def)
next
  assume "d \<noteq> AOEDriver"
  then show "fst (discover_volume d F run v w) \<noteq> Inr None"
    by (cases d)
       (simp_all add: ISCSI_discover_volume_path RBD_discover_volume_def
          Sheepdog_discover_volume_def)
next
  assume a: "get_iscsi_properties_for_volume F run v w = (Inr props, w1)
        \<and> set_iscsi_auth run props w1 = (Inr (), w2)"
  obtain x w3 where l: "login_and_automatic F run props w2 = (x, w3)"
    by (cases "login_and_automatic F run props w2")
  show "case login_and_automatic F run props w2 of
         (Inl e, w3) \<Rightarrow>
           discover_volume ISCSIDriver F run v w =
             (Inl (Error (''iSCSI device '' @ target_iqn props @ '' not found'')),
              log_msg ERROR ''%s'' w3)
       | (Inr u, w3) \<Rightarrow>
           discover_volume ISCSIDriver F run v w =
             (Inr (Some (''/dev/disk/by-path/ip-'' @ target_portal props @ ''-iscsi-''
                           @ target_iqn props @ ''-lun-0'')), w3)"
  proof (cases x)
    case (Inl e)
    with l have "is_ProcessExecutionError e" by (auto dest: login_and_automatic_error)
    with a l Inl show ?thesis by (simp add: ISCSI_discover_volume_def)
  next
    case (Inr u)
    with a l show ?thesis by (simp add: ISCSI_discover_volume_def)
  qed
qed (simp_all add: RBD_discover_volume_def Sheepdog_discover_volume_def)

theorem discover_volume_results_witness:
  "volume_get_shelf_and_blade (db (fresh_world registry1)) (vol_id vol1) = Inr (0, 0)
   \<and> fst (discover_volume AOEDriver small_flags (prints []) vol1 (fresh_world registry1)) =
       Inr None
   \<and> fst (discover_volume AOEDriver small_flags (prints ''e0.0 1.074GB eth0 up'') vol1
            (fresh_world registry1)) = Inr (Some ''/dev/etherd/e0.0'')
   \<and> fst (discover_volume RBDDriver small_flags (prints []) vol1 (fresh_world registry1)) \<noteq>
       Inr None
   \<and> get_iscsi_properties_for_volume small_flags (prints []) (vol_chap [])
        (fresh_world empty_registry) = (Inr sample_props, world_node_created)
   \<and> set_iscsi_auth (prints []) sample_props world_node_created = (Inr (), world_node_created)
   \<and> fst (discover_volume ISCSIDriver small_flags (prints []) (vol_chap [])
            (fresh_world empty_registry)) =
       Inr (Some ''/dev/disk/by-path/ip-10.0.0.5:3260-iscsi-iqn.2010-10.org.openstack:vol-1-lun-0'')
   \<and> fst (discover_volume ISCSIDriver small_flags (fails_from 1) (vol_chap [])
            (fresh_world empty_registry)) =
       Inl (Error ''iSCSI device iqn.2010-10.org.openstack:vol-1 not found'')"
proof -
  have l: "volume_get_shelf_and_blade (db (fresh_world registry1)) (vol_id vol1) = Inr (0, 0)"
    by (simp add: volume_get_shelf_and_blade_def registry1_def fresh_world_def vol1_def)
  have a1: "fst (discover_volume AOEDriver small_flags (prints []) vol1 (fresh_world registry1))
              = Inr None"
    using discover_volume_results [where w = "fresh_world registry1" and v = vol1 and s = 0
            and b = 0 and F = small_flags and run = "prints []", THEN conjunct1] l
    by (simp add: prints_def exits_def)
  have a2: "fst (discover_volume AOEDriver small_flags (prints ''e0.0 1.074GB eth0 up'') vol1
              (fresh_world registry1)) = Inr (Some ''/dev/etherd/e0.0'')"
    using discover_volume_results [where w = "fresh_world registry1" and v = vol1 and s = 0
            and b = 0 and F = small_flags and run = "prints ''e0.0 1.074GB eth0 up''",
            THEN conjunct1] l
    by (simp add: prints_def exits_def str_int_0 starts_with_def)
  have r: "fst (discover_volume RBDDriver small_flags (prints []) vol1 (fresh_world registry1))
             \<noteq> Inr None"
    using discover_volume_results [where d = RBDDriver and F = small_flags
            and run = "prints []" and v = vol1 and w = "fresh_world registry1",
            THEN conjunct2, THEN conjunct1]
    by simp
  have p1: "get_iscsi_properties_for_volume small_flags (prints []) (vol_chap [])
              (fresh_world empty_registry) = (Inr sample_props, world_node_created)"
    by (simp add: sample_node_created prints_def exits_def)
  have p2: "get_iscsi_properties_for_volume small_flags (fails_from 1) (vol_chap [])
              (fresh_world empty_registry) = (Inr sample_props, world_node_created)"
    by (simp add: sample_node_created fails_from_def exits_def)
  have i1: "fst (discover_volume ISCSIDriver small_flags (prints []) (vol_chap [])
              (fresh_world empty_registry)) =
       Inr (Some ''/dev/disk/by-path/ip-10.0.0.5:3260-iscsi-iqn.2010-10.org.openstack:vol-1-lun-0'')"
    using discover_volume_results [where w = "fresh_world empty_registry" and v = "vol_chap []"
            and F = small_flags and run = "prints []" and props = sample_props
            and ?w1.0 = world_node_created and ?w2.0 = world_node_created,
            THEN conjunct2, THEN conjunct2, THEN conjunct1] p1 login_samples(1)
    by (auto simp: sample_no_auth sample_props_fields split: prod.splits sum.splits)
  have i2: "fst (discover_volume ISCSIDriver small_flags (fails_from 1) (vol_chap [])
              (fresh_world empty_registry)) =
       Inl (Error ''iSCSI device iqn.2010-10.org.openstack:vol-1 not found'')"
    using discover_volume_results [where w = "fresh_world empty_registry" and v = "vol_chap []"
            and F = small_flags and run = "fails_from 1" and props = sample_props
            and ?w1.0 = world_node_created and ?w2.0 = world_node_created,
            THEN conjunct2, THEN conjunct2, THEN conjunct1] p2 login_samples(2)
    by (auto simp: sample_no_auth sample_props_fields split: prod.splits sum.splits)
  show ?thesis
    using l a1 a2 r p1 i1 i2 by (simp add: sample_no_auth)
qed

section \<open>check_for_export\<close>

lemma split_on_nonempty [simp]: "split_on c s \<noteq> []"
  by (induction s) (auto split: list.splits)

lemma split_on_no_sep: "f \<in> set (split_on c s) \<Longrightarrow> c \<notin> set f"
  by (induction s arbitrary: f) (auto split: list.splits if_splits)

lemma join_split_on: "join_with c (split_on c s) = s"
proof (induction s)
  case Nil
  then show ?case by simp
next
  case (Cons x xs)
  obtain y ys where s: "split_on c xs = y # ys"
    by (cases "split_on c xs") simp_all
  with Cons show ?case
    by (cases ys) auto
qed

lemma split_on_single: "c \<notin> set f \<Longrightarrow> split_on c f = [f]"
  by (induction f) auto

lemma split_on_append: "c \<notin> set f \<Longrightarrow> split_on c (f @ c # rest) = f # split_on c rest"
  by (induction f) auto

lemma split_join_with:
  "fs \<noteq> [] \<Longrightarrow> \<forall>f\<in>set fs. c \<notin> set f \<Longrightarrow> split_on c (join_with c fs) = fs"
proof (induction c fs rule: join_with.induct)
  case (1 c)
  then show ?case by simp
next
  case (2 c f)
  then show ?case by (simp add: split_on_single)
next
  case (3 c f g fs)
  then show ?case by (simp add: split_on_append)
qed

lemma digit_char_no_space: "d < 10 \<Longrightarrow> digit_char d \<noteq> CHR '' ''"
proof -
  assume "d < 10"
  then have "digit_char d \<in> set ''0123456789''"
    unfolding digit_char_def by (intro nth_mem) simp
  then show ?thesis by auto
qed

lemma str_nat_no_space: "CHR '' '' \<notin> set (str_nat n)"
proof (induction n rule: str_nat.induct)
  case (1 n)
  show ?case
  proof (cases "n < 10")
    case True
    then show ?thesis
      by (subst str_nat.simps) (simp add: digit_char_no_space [THEN not_sym])
  next
    case False
    with 1 show ?thesis
      by (subst str_nat.simps) (simp add: digit_char_no_space [THEN not_sym])
  qed
qed

lemma str_int_no_space: "CHR '' '' \<notin> set (str_int i)"
  by (simp add: str_int_def str_nat_no_space)

lemma six_fields: "length xs = 6 \<Longrightarrow> \<exists>a b c d e f. xs = [a, b, c, d, e, f]"
  by (auto simp: eval_nat_numeral length_Suc_conv)

lemma line_fields:
  "(length (split_on CHR '' '' line) = 6 \<and> split_on CHR '' '' line ! 0 = str_int s
      \<and> split_on CHR '' '' line ! 1 = str_int b \<and> last (split_on CHR '' '' line) = ''run'')
   = running_line s b line"
proof
  assume a: "length (split_on CHR '' '' line) = 6 \<and> split_on CHR '' '' line ! 0 = str_int s
      \<and> split_on CHR '' '' line ! 1 = str_int b \<and> last (split_on CHR '' '' line) = ''run''"
  then obtain p0 p1 p2 p3 p4 p5 where ps: "split_on CHR '' '' line = [p0, p1, p2, p3, p4, p5]"
    using six_fields by blast
  have "\<forall>f\<in>set (split_on CHR '' '' line). CHR '' '' \<notin> set f"
    using split_on_no_sep by blast
  with ps have ns: "CHR '' '' \<notin> set p2" "CHR '' '' \<notin> set p3" "CHR '' '' \<notin> set p4"
    by simp_all
  have "line = join_with CHR '' '' [p0, p1, p2, p3, p4, p5]"
    using join_split_on [of "CHR '' ''" line] ps by simp
  moreover from a ps have "p0 = str_int s" "p1 = str_int b" "p5 = ''run''" by simp_all
  ultimately show "running_line s b line"
    unfolding running_line_def using ns by blast
next
  assume "running_line s b line"
  then obtain f3 f4 f5 where
    ns: "CHR '' '' \<notin> set f3" "CHR '' '' \<notin> set f4" "CHR '' '' \<notin> set f5"
    and l: "line = join_with CHR '' '' [str_int s, str_int b, f3, f4, f5, ''run'']"
    unfolding running_line_def by blast
  have "split_on CHR '' '' line = [str_int s, str_int b, f3, f4, f5, ''run'']"
    unfolding l by (rule split_join_with) (simp_all add: ns str_int_no_space)
  then show "length (split_on CHR '' '' line) = 6 \<and> split_on CHR '' '' line ! 0 = str_int s
      \<and> split_on CHR '' '' line ! 1 = str_int b \<and> last (split_on CHR '' '' line) = ''run''"
    by simp
qed

lemma exported_in_iff: "exported_in s b ls = (\<exists>line\<in>set ls. running_line s b line)"
  by (induction ls) (auto simp: Let_def line_fields [symmetric])

lemma str_int_3_7: "str_int 3 = ''3''" "str_int 7 = ''7''" "str_int 1 = ''1''"
  by (simp_all add: str_int_def str_nat.simps digit_char_def)

lemma listing_lines:
  "(\<exists>line\<in>set (split_on CHR 0x0A (listing ''run'')). running_line 3 7 line)"
  "\<not> (\<exists>line\<in>set (split_on CHR 0x0A (listing ''down'')). running_line 3 7 line)"
  by (simp_all add: listing_def line_fields [symmetric] str_int_3_7)

text \<open>
  C5, as stated, fails: a line naming the shelf, the blade and the status \<^verbatim>\<open>run\<close> is
  not enough. The line \<^verbatim>\<open>3 7 ... run\<close> as the spec writes it has four fields, and a line
  with two spaces after the blade has seven; for shelf 3 and blade 7 both make
  \<^verbatim>\<open>check_for_export\<close> raise.
\<close>

theorem AOE_check_for_export_field_count_counterexample:
  "fst (AOE_check_for_export small_flags (prints ''3 7 ... run'') 1 (fresh_world registry37)) =
     Inl (ProcessExecutionError ''3 7 ... run'' [] vblade_ls_cmd
            (Some ''Cannot confirm exported volume id:1. vblade process for e3.7 isn't running.''))
   \<and> fst (AOE_check_for_export small_flags (prints ''3 7  eth0 /dev/nova-volumes/vol-1 auto run'')
            1 (fresh_world registry37)) =
     Inl (ProcessExecutionError ''3 7  eth0 /dev/nova-volumes/vol-1 auto run'' [] vblade_ls_cmd
            (Some ''Cannot confirm exported volume id:1. vblade process for e3.7 isn't running.''))"
  by (simp add: AOE_check_for_export_def volume_get_shelf_and_blade_def registry37_def
       fresh_world_def execute_def Let_def prints_def exits_def not_running_desc_def str_int_3_7)

text \<open>
  C5, amended. For a recorded shelf/blade pair, when \<^verbatim>\<open>vblade-persist ls --no-header\<close>
  exits with 0, \<^verbatim>\<open>AOEDriver.check_for_export\<close> returns normally if and only if some line of
  the output consists of exactly six fields separated by single spaces, of which the
  first is the shelf, the second the blade and the last \<^verbatim>\<open>run\<close>; on any other output it
  raises \<open>ProcessExecutionError\<close> with the description that the vblade process is not
  running. When the command exits non-zero it raises the executor's
  \<open>ProcessExecutionError\<close>.
\<close>

theorem AOE_check_for_export_running:
  assumes "volume_get_shelf_and_blade (db w) vid = Inr (s, b)"
  shows "(exit_code (run (map fst (history w)) vblade_ls_cmd) = 0 \<longrightarrow>
            (fst (AOE_check_for_export F run vid w) = Inr ())
              = (\<exists>line\<in>set (split_on CHR 0x0A (stdout (run (map fst (history w)) vblade_ls_cmd))).
                   running_line s b line)
            \<and> (fst (AOE_check_for_export F run vid w) \<noteq> Inr () \<longrightarrow>
                 fst (AOE_check_for_export F run vid w) =
                   Inl (ProcessExecutionError (stdout (run (map fst (history w)) vblade_ls_cmd))
                          (stderr (run (map fst (history w)) vblade_ls_cmd)) vblade_ls_cmd
                          (Some (not_running_desc vid s b)))))
       \<and> (exit_code (run (map fst (history w)) vblade_ls_cmd) \<noteq> 0 \<longrightarrow>
            fst (AOE_check_for_export F run vid w) =
              Inl (ProcessExecutionError (stdout (run (map fst (history w)) vblade_ls_cmd))
                     (stderr (run (map fst (history w)) vblade_ls_cmd)) vblade_ls_cmd None))"
  using assms
  by (simp add: AOE_check_for_export_def execute_def Let_def exported_in_iff)

theorem AOE_check_for_export_running_witness:
  "volume_get_shelf_and_blade (db (fresh_world registry37)) 1 = Inr (3, 7)
   \<and> exit_code (prints (listing ''run'') [] vblade_ls_cmd) = 0
   \<and> fst (AOE_check_for_export small_flags (prints (listing ''run'')) 1
            (fresh_world registry37)) = Inr ()
   \<and> fst (AOE_check_for_export small_flags (prints (listing ''down'')) 1
            (fresh_world registry37)) =
       Inl (ProcessExecutionError (listing ''down'') [] vblade_ls_cmd
              (Some ''Cannot confirm exported volume id:1. vblade process for e3.7 isn't running.''))
   \<and> exit_code (refuses [] [] vblade_ls_cmd) \<noteq> 0
   \<and> fst (AOE_check_for_export small_flags (refuses []) 1 (fresh_world registry37)) =
       Inl (ProcessExecutionError [] [] vblade_ls_cmd None)"
proof -
  have l: "volume_get_shelf_and_blade (db (fresh_world registry37)) 1 = Inr (3, 7)"
    by (simp add: volume_get_shelf_and_blade_def registry37_def fresh_world_def)
  have h: "map fst (history (fresh_world registry37)) = []"
    by (simp add: fresh_world_def)
  have a: "fst (AOE_check_for_export small_flags (prints (listing ''run'')) 1
                 (fresh_world registry37)) = Inr ()"
    using AOE_check_for_export_running [OF l, where run = "prints (listing ''run'')"
            and F = small_flags] listing_lines(1)
    by (simp add: h prints_def exits_def)
  have b: "fst (AOE_check_for_export small_flags (prints (listing ''down'')) 1
                 (fresh_world registry37)) =
       Inl (ProcessExecutionError (listing ''down'') [] vblade_ls_cmd
              (Some ''Cannot confirm exported volume id:1. vblade process for e3.7 isn't running.''))"
    using AOE_check_for_export_running [OF l, where run = "prints (listing ''down'')"
            and F = small_flags] listing_lines(2)
    by (simp add: h prints_def exits_def not_running_desc_def str_int_3_7)
  have c: "fst (AOE_check_for_export small_flags (refuses []) 1 (fresh_world registry37)) =
       Inl (ProcessExecutionError [] [] vblade_ls_cmd None)"
    using AOE_check_for_export_running [OF l, where run = "refuses []" and F = small_flags]
    by (simp add: h refuses_def)
  show ?thesis
    using l a b c by (simp add: prints_def exits_def refuses_def)
qed

end
